theory Spec2Isabelle
  imports Main "HOL-Library.Multiset" "HOL-Library.Char_ord" "HOL-Library.List_Lexorder"
begin

section \<open>EduTrack: the data model\<close>

text \<open>
  The three services (student-service, course-service, enrollment-service) share one
  relational datastore. A table is a list of rows, a row is a record, NULL-able columns
  and optional request fields are options, timestamps are integers (microseconds).
  Record fields carry a prefix because the tables share column names.
\<close>

record student =
  s_student_id :: int
  s_name :: string
  s_email :: string
  s_phone :: "string option"
  s_registration_date :: int

record course =
  c_course_id :: int
  c_course_code :: string
  c_course_name :: string
  c_description :: "string option"
  c_credits :: int
  c_instructor :: "string option"
  c_max_capacity :: int
  c_current_enrollment :: int
  c_status :: string

record enrollment =
  e_enrollment_id :: int
  e_student_id :: int
  e_course_id :: int
  e_enrollment_date :: int
  e_grade :: "string option"
  e_status :: string

record admin =
  a_username :: string
  a_password_hash :: string

text \<open>
  The datastore as the services see it: the four tables and the sequence that numbers
  new enrollment rows (\<open>INSERT ... RETURNING enrollment_id\<close>).
\<close>

record db =
  students :: "student list"
  courses :: "course list"
  enrollments :: "enrollment list"
  admins :: "admin list"
  next_enrollment_id :: int

text \<open>The pydantic request models of enrollment-service.\<close>

record EnrollmentCreate =
  ec_student_id :: int
  ec_course_id :: int

record EnrollmentUpdate =
  eu_grade :: "string option"
  eu_status :: "string option"

text \<open>
  The rows of the join queries: \<open>e.*\<close> with the denormalised columns of the
  student and of the course.
\<close>

record enrollment_detail =
  ed_enrollment :: enrollment
  ed_student_name :: string
  ed_student_email :: string
  ed_course_code :: string
  ed_course_name :: string
  ed_credits :: int

record student_enrollment_row =
  se_enrollment :: enrollment
  se_course_code :: string
  se_course_name :: string
  se_credits :: int
  se_instructor :: "string option"

record course_enrollment_row =
  ce_enrollment :: enrollment
  ce_student_name :: string
  ce_student_email :: string
  ce_student_phone :: "string option"

section \<open>Exceptions and datastore faults\<close>

text \<open>
  The exceptions the handlers raise or meet. \<open>OperationalError\<close> is a subclass of
  \<open>DatabaseError\<close> in psycopg, so \<open>except DatabaseError\<close> catches both.
  \<open>ValueError\<close> is what \<open>bcrypt.checkpw\<close> raises; no handler names it.
\<close>

datatype exn =
    HTTPException int string
  | DatabaseError string
  | OperationalError string
  | NameError string
  | ValueError string

text \<open>
  What the datastore does to one request: nothing wrong, a refused connection (raised by
  \<open>psycopg.connect\<close>), or a \<open>DatabaseError\<close> raised by the k-th datastore call of
  the handler (\<open>cursor.execute\<close> and \<open>conn.commit\<close>, counted from 1 in program
  order).
\<close>

datatype fault = NoFault | ConnectFault string | StmtFault nat string

abbreviation HTTP_400_BAD_REQUEST :: int where "HTTP_400_BAD_REQUEST \<equiv> 400"
abbreviation HTTP_401_UNAUTHORIZED :: int where "HTTP_401_UNAUTHORIZED \<equiv> 401"
abbreviation HTTP_404_NOT_FOUND :: int where "HTTP_404_NOT_FOUND \<equiv> 404"
abbreviation HTTP_500_INTERNAL_SERVER_ERROR :: int where "HTTP_500_INTERNAL_SERVER_ERROR \<equiv> 500"

definition then_res :: "exn + 'a \<Rightarrow> ('a \<Rightarrow> exn + 'b) \<Rightarrow> exn + 'b" where
  "then_res m f = (case m of Inl e \<Rightarrow> Inl e | Inr x \<Rightarrow> f x)"

definition psycopg_connect :: "fault \<Rightarrow> exn + unit" where
  "psycopg_connect flt =
     (case flt of ConnectFault m \<Rightarrow> Inl (OperationalError m) | _ \<Rightarrow> Inr ())"

definition get_db_connection :: "fault \<Rightarrow> exn + unit" where
  "get_db_connection flt =
     (case psycopg_connect flt of
        Inl (OperationalError m) \<Rightarrow>
          Inl (HTTPException HTTP_500_INTERNAL_SERVER_ERROR ''Database connection failed'')
      | Inl e \<Rightarrow> Inl e
      | Inr c \<Rightarrow> Inr c)"

definition execute :: "fault \<Rightarrow> nat \<Rightarrow> exn + unit" where
  "execute flt k =
     (case flt of
        StmtFault j m \<Rightarrow> if j = k then Inl (DatabaseError m) else Inr ()
      | _ \<Rightarrow> Inr ())"

text \<open>\<open>cursor.fetchone()\<close>: the first row of the result, or None.\<close>

definition fetchone :: "'a list \<Rightarrow> 'a option" where
  "fetchone rows = (case rows of [] \<Rightarrow> None | r # _ \<Rightarrow> Some r)"

text \<open>
  The handler chain of every endpoint but one:
  \<open>except HTTPException: raise\<close>, then
  \<open>except DatabaseError as e: raise HTTPException(500, f"Database error: {str(e)}")\<close>.
\<close>

definition except_DatabaseError :: "exn \<Rightarrow> exn" where
  "except_DatabaseError e =
     (case e of
        HTTPException code detail \<Rightarrow> HTTPException code detail
      | DatabaseError m \<Rightarrow>
          HTTPException HTTP_500_INTERNAL_SERVER_ERROR (''Database error: '' @ m)
      | OperationalError m \<Rightarrow>
          HTTPException HTTP_500_INTERNAL_SERVER_ERROR (''Database error: '' @ m)
      | NameError m \<Rightarrow> NameError m
      | ValueError m \<Rightarrow> ValueError m)"

text \<open>Python's \<open>str\<close> on an integer, for the f-strings of the messages.\<close>

fun str_nat :: "nat \<Rightarrow> string" where
  "str_nat n =
     (if n < 10 then [''0123456789'' ! n]
      else str_nat (n div 10) @ [''0123456789'' ! (n mod 10)])"

definition str_int :: "int \<Rightarrow> string" where
  "str_int i = (if i < 0 then ''-'' @ str_nat (nat (- i)) else str_nat (nat i))"

section \<open>enrollment-service\<close>

subsection \<open>The join that decorates an enrollment\<close>

definition mk_detail :: "enrollment \<Rightarrow> student \<Rightarrow> course \<Rightarrow> enrollment_detail" where
  "mk_detail e s c =
     \<lparr>ed_enrollment = e, ed_student_name = s_name s, ed_student_email = s_email s,
      ed_course_code = c_course_code c, ed_course_name = c_course_name c,
      ed_credits = c_credits c\<rparr>"

text \<open>
  \<open>SELECT e.*, s.name, s.email, c.course_code, c.course_name, c.credits
   FROM enrollments e JOIN students s ON ... JOIN courses c ON ... WHERE P(e)\<close>
\<close>

definition select_enrollment_details :: "db \<Rightarrow> (enrollment \<Rightarrow> bool) \<Rightarrow> enrollment_detail list" where
  "select_enrollment_details d P =
     concat (map (\<lambda>e.
       concat (map (\<lambda>s.
         map (\<lambda>c. mk_detail e s c)
             (filter (\<lambda>c. c_course_id c = e_course_id e) (courses d)))
         (filter (\<lambda>s. s_student_id s = e_student_id e) (students d))))
       (filter P (enrollments d)))"

subsection \<open>create_enrollment\<close>

text \<open>
  Lines 136-189: the five checks, all of them reads. The result is the exception raised,
  or unit when every check passes.
\<close>

definition create_enrollment_checks :: "fault \<Rightarrow> db \<Rightarrow> EnrollmentCreate \<Rightarrow> exn + unit" where
  "create_enrollment_checks flt d enrollment =
     then_res (execute flt 1) (\<lambda>_.
       case fetchone (filter (\<lambda>s. s_student_id s = ec_student_id enrollment) (students d)) of
         None \<Rightarrow> Inl (HTTPException HTTP_404_NOT_FOUND
                   (''Student with ID '' @ str_int (ec_student_id enrollment) @ '' not found''))
       | Some student \<Rightarrow>
     then_res (execute flt 2) (\<lambda>_.
       case fetchone (filter (\<lambda>c. c_course_id c = ec_course_id enrollment) (courses d)) of
         None \<Rightarrow> Inl (HTTPException HTTP_404_NOT_FOUND
                   (''Course with ID '' @ str_int (ec_course_id enrollment) @ '' not found''))
       | Some course \<Rightarrow>
           if c_status course \<noteq> ''active''
           then Inl (HTTPException HTTP_400_BAD_REQUEST ''Course is not active'')
           else if c_current_enrollment course \<ge> c_max_capacity course
           then Inl (HTTPException HTTP_400_BAD_REQUEST ''Course is full'')
           else
     then_res (execute flt 3) (\<lambda>_.
       case fetchone (filter (\<lambda>e. e_student_id e = ec_student_id enrollment
                                  \<and> e_course_id e = ec_course_id enrollment) (enrollments d)) of
         Some _ \<Rightarrow> Inl (HTTPException HTTP_400_BAD_REQUEST
                     ''Student is already enrolled in this course'')
       | None \<Rightarrow> Inr ())))"

text \<open>
  Lines 191-204: the INSERT, the UPDATE of the counter and the commit. The columns the
  INSERT does not name (enrollment_date, grade, status) take the values of the schema's
  defaults, which are not in the source: the row \<open>dflt\<close> supplies them. The result is
  the transaction's state with the new row's id; nothing is committed when a statement
  raises.
\<close>

definition insert_enrollment :: "enrollment \<Rightarrow> db \<Rightarrow> EnrollmentCreate \<Rightarrow> db" where
  "insert_enrollment dflt d enrollment =
     d\<lparr>enrollments := enrollments d @
          [dflt\<lparr>e_enrollment_id := next_enrollment_id d,
                e_student_id := ec_student_id enrollment,
                e_course_id := ec_course_id enrollment\<rparr>],
       next_enrollment_id := next_enrollment_id d + 1\<rparr>"

definition increment_current_enrollment :: "int \<Rightarrow> db \<Rightarrow> db" where
  "increment_current_enrollment cid d =
     d\<lparr>courses := map (\<lambda>c. if c_course_id c = cid
                            then c\<lparr>c_current_enrollment := c_current_enrollment c + 1\<rparr>
                            else c) (courses d)\<rparr>"

definition create_enrollment_writes ::
    "fault \<Rightarrow> enrollment \<Rightarrow> db \<Rightarrow> EnrollmentCreate \<Rightarrow> exn + (db \<times> int)" where
  "create_enrollment_writes flt dflt d enrollment =
     then_res (execute flt 4) (\<lambda>_.
       let enrollment_id = next_enrollment_id d;
           tx1 = insert_enrollment dflt d enrollment
       in
     then_res (execute flt 5) (\<lambda>_.
       let tx2 = increment_current_enrollment (ec_course_id enrollment) tx1 in
     then_res (execute flt 6) (\<lambda>_. Inr (tx2, enrollment_id))))"

text \<open>Lines 206-225: the read after the commit, and the response.\<close>

definition create_enrollment_response ::
    "fault \<Rightarrow> db \<Rightarrow> int \<Rightarrow> exn + (string \<times> enrollment_detail option)" where
  "create_enrollment_response flt d enrollment_id =
     then_res (execute flt 7) (\<lambda>_.
       Inr (''Enrollment created successfully'',
            fetchone (select_enrollment_details d (\<lambda>e. e_enrollment_id e = enrollment_id))))"

text \<open>
  The whole handler: what it returns or raises, and the committed state of the datastore
  afterwards. An exception before the commit leaves the committed state as it was.
\<close>

definition create_enrollment ::
    "fault \<Rightarrow> enrollment \<Rightarrow> db \<Rightarrow> EnrollmentCreate
      \<Rightarrow> (exn + (string \<times> enrollment_detail option)) \<times> db" where
  "create_enrollment flt dflt d enrollment =
     (case then_res (get_db_connection flt) (\<lambda>_.
             then_res (create_enrollment_checks flt d enrollment) (\<lambda>_.
               create_enrollment_writes flt dflt d enrollment)) of
        Inl e \<Rightarrow> (Inl (except_DatabaseError e), d)
      | Inr (tx, enrollment_id) \<Rightarrow>
          (case create_enrollment_response flt tx enrollment_id of
             Inl e \<Rightarrow> (Inl (except_DatabaseError e), tx)
           | Inr r \<Rightarrow> (Inr r, tx)))"

subsection \<open>update_enrollment\<close>

text \<open>
  The handler builds its SET clause from the supplied fields: \<open>update_fields\<close> and
  \<open>values\<close> grow together, one entry per field that is not None.
\<close>

definition update_fields :: "EnrollmentUpdate \<Rightarrow> string list" where
  "update_fields enrollment =
     (if eu_grade enrollment \<noteq> None then [''grade = %s''] else []) @
     (if eu_status enrollment \<noteq> None then [''status = %s''] else [])"

definition update_values :: "EnrollmentUpdate \<Rightarrow> string list" where
  "update_values enrollment =
     (case eu_grade enrollment of Some g \<Rightarrow> [g] | None \<Rightarrow> []) @
     (case eu_status enrollment of Some s \<Rightarrow> [s] | None \<Rightarrow> [])"

text \<open>One assignment of the SET clause, applied to a row.\<close>

definition set_column :: "string \<times> string \<Rightarrow> enrollment \<Rightarrow> enrollment" where
  "set_column a e =
     (if fst a = ''grade = %s'' then e\<lparr>e_grade := Some (snd a)\<rparr>
      else if fst a = ''status = %s'' then e\<lparr>e_status := snd a\<rparr>
      else e)"

text \<open>\<open>UPDATE enrollments SET ... WHERE enrollment_id = %s\<close>\<close>

definition update_enrollments_set :: "(string \<times> string) list \<Rightarrow> int \<Rightarrow> db \<Rightarrow> db" where
  "update_enrollments_set assignments enrollment_id d =
     d\<lparr>enrollments := map (\<lambda>e. if e_enrollment_id e = enrollment_id
                                   then fold set_column assignments e else e)
                            (enrollments d)\<rparr>"

definition update_enrollment_tx ::
    "fault \<Rightarrow> db \<Rightarrow> int \<Rightarrow> EnrollmentUpdate \<Rightarrow> exn + db" where
  "update_enrollment_tx flt d enrollment_id enrollment =
     then_res (get_db_connection flt) (\<lambda>_.
     then_res (execute flt 1) (\<lambda>_.
       case fetchone (filter (\<lambda>e. e_enrollment_id e = enrollment_id) (enrollments d)) of
         None \<Rightarrow> Inl (HTTPException HTTP_404_NOT_FOUND
                   (''Enrollment with ID '' @ str_int enrollment_id @ '' not found''))
       | Some _ \<Rightarrow>
           if update_fields enrollment = []
           then Inl (HTTPException HTTP_400_BAD_REQUEST ''No fields to update'')
           else
     then_res (execute flt 2) (\<lambda>_.
       let tx = update_enrollments_set
                  (zip (update_fields enrollment) (update_values enrollment)) enrollment_id d in
     then_res (execute flt 3) (\<lambda>_. Inr tx))))"

definition update_enrollment ::
    "fault \<Rightarrow> db \<Rightarrow> int \<Rightarrow> EnrollmentUpdate
      \<Rightarrow> (exn + (string \<times> enrollment_detail option)) \<times> db" where
  "update_enrollment flt d enrollment_id enrollment =
     (case update_enrollment_tx flt d enrollment_id enrollment of
        Inl e \<Rightarrow> (Inl (except_DatabaseError e), d)
      | Inr tx \<Rightarrow>
          (case execute flt 4 of
             Inl e \<Rightarrow> (Inl (except_DatabaseError e), tx)
           | Inr _ \<Rightarrow>
               (Inr (''Enrollment updated successfully'',
                     fetchone (select_enrollment_details tx
                                 (\<lambda>e. e_enrollment_id e = enrollment_id))), tx)))"

subsection \<open>delete_enrollment\<close>

text \<open>
  \<open>UPDATE courses SET current_enrollment = GREATEST(current_enrollment - 1, 0)
   WHERE course_id = %s\<close>
\<close>

definition decrement_current_enrollment :: "int \<Rightarrow> db \<Rightarrow> db" where
  "decrement_current_enrollment cid d =
     d\<lparr>courses := map (\<lambda>c. if c_course_id c = cid
                            then c\<lparr>c_current_enrollment := max (c_current_enrollment c - 1) 0\<rparr>
                            else c) (courses d)\<rparr>"

definition delete_from_enrollments :: "int \<Rightarrow> db \<Rightarrow> db" where
  "delete_from_enrollments enrollment_id d =
     d\<lparr>enrollments := filter (\<lambda>e. e_enrollment_id e \<noteq> enrollment_id) (enrollments d)\<rparr>"

definition delete_enrollment_tx :: "fault \<Rightarrow> db \<Rightarrow> int \<Rightarrow> exn + db" where
  "delete_enrollment_tx flt d enrollment_id =
     then_res (get_db_connection flt) (\<lambda>_.
     then_res (execute flt 1) (\<lambda>_.
       case fetchone (filter (\<lambda>e. e_enrollment_id e = enrollment_id) (enrollments d)) of
         None \<Rightarrow> Inl (HTTPException HTTP_404_NOT_FOUND
                   (''Enrollment with ID '' @ str_int enrollment_id @ '' not found''))
       | Some enrollment \<Rightarrow>
     then_res (execute flt 2) (\<lambda>_.
       let tx1 = delete_from_enrollments enrollment_id d in
     then_res (execute flt 3) (\<lambda>_.
       let tx2 = decrement_current_enrollment (e_course_id enrollment) tx1 in
     then_res (execute flt 4) (\<lambda>_. Inr tx2)))))"

definition delete_enrollment :: "fault \<Rightarrow> db \<Rightarrow> int \<Rightarrow> (exn + string) \<times> db" where
  "delete_enrollment flt d enrollment_id =
     (case delete_enrollment_tx flt d enrollment_id of
        Inl e \<Rightarrow> (Inl (except_DatabaseError e), d)
      | Inr tx \<Rightarrow>
          (Inr (''Enrollment '' @ str_int enrollment_id @ '' deleted successfully''), tx))"

subsection \<open>get_enrollments_by_student and get_enrollments_by_course\<close>

text \<open>
  \<open>ORDER BY e.enrollment_date DESC\<close> is a stable sort on the negated date; SQL
  leaves the order of rows with equal dates open, the model keeps the table's.
\<close>

definition select_enrollments_of_student :: "db \<Rightarrow> int \<Rightarrow> student_enrollment_row list" where
  "select_enrollments_of_student d student_id =
     sort_key (\<lambda>r. - e_enrollment_date (se_enrollment r))
       (concat (map (\<lambda>e.
          map (\<lambda>c. \<lparr>se_enrollment = e, se_course_code = c_course_code c,
                     se_course_name = c_course_name c, se_credits = c_credits c,
                     se_instructor = c_instructor c\<rparr>)
              (filter (\<lambda>c. c_course_id c = e_course_id e) (courses d)))
          (filter (\<lambda>e. e_student_id e = student_id) (enrollments d))))"

definition get_enrollments_by_student ::
    "fault \<Rightarrow> db \<Rightarrow> int \<Rightarrow> exn + student_enrollment_row list" where
  "get_enrollments_by_student flt d student_id =
     (case then_res (get_db_connection flt) (\<lambda>_.
           then_res (execute flt 1) (\<lambda>_.
             case fetchone (filter (\<lambda>s. s_student_id s = student_id) (students d)) of
               None \<Rightarrow> Inl (HTTPException HTTP_404_NOT_FOUND
                         (''Student with ID '' @ str_int student_id @ '' not found''))
             | Some _ \<Rightarrow>
           then_res (execute flt 2) (\<lambda>_.
             Inr (select_enrollments_of_student d student_id)))) of
        Inl e \<Rightarrow> Inl (except_DatabaseError e)
      | Inr rows \<Rightarrow> Inr rows)"

definition select_enrollments_of_course :: "db \<Rightarrow> int \<Rightarrow> course_enrollment_row list" where
  "select_enrollments_of_course d course_id =
     sort_key (\<lambda>r. - e_enrollment_date (ce_enrollment r))
       (concat (map (\<lambda>e.
          map (\<lambda>s. \<lparr>ce_enrollment = e, ce_student_name = s_name s,
                     ce_student_email = s_email s, ce_student_phone = s_phone s\<rparr>)
              (filter (\<lambda>s. s_student_id s = e_student_id e) (students d)))
          (filter (\<lambda>e. e_course_id e = course_id) (enrollments d))))"

definition get_enrollments_by_course ::
    "fault \<Rightarrow> db \<Rightarrow> int \<Rightarrow> exn + course_enrollment_row list" where
  "get_enrollments_by_course flt d course_id =
     (case then_res (get_db_connection flt) (\<lambda>_.
           then_res (execute flt 1) (\<lambda>_.
             case fetchone (filter (\<lambda>c. c_course_id c = course_id) (courses d)) of
               None \<Rightarrow> Inl (HTTPException HTTP_404_NOT_FOUND
                         (''Course with ID '' @ str_int course_id @ '' not found''))
             | Some _ \<Rightarrow>
           then_res (execute flt 2) (\<lambda>_.
             Inr (select_enrollments_of_course d course_id)))) of
        Inl e \<Rightarrow> Inl (except_DatabaseError e)
      | Inr rows \<Rightarrow> Inr rows)"

section \<open>student-service\<close>

subsection \<open>get_student_enrollments\<close>

record student_course_row =
  sc_enrollment :: enrollment
  sc_course_code :: string
  sc_course_name :: string
  sc_credits :: int

definition select_student_courses :: "db \<Rightarrow> int \<Rightarrow> student_course_row list" where
  "select_student_courses d student_id =
     sort_key (\<lambda>r. - e_enrollment_date (sc_enrollment r))
       (concat (map (\<lambda>e.
          map (\<lambda>c. \<lparr>sc_enrollment = e, sc_course_code = c_course_code c,
                     sc_course_name = c_course_name c, sc_credits = c_credits c\<rparr>)
              (filter (\<lambda>c. c_course_id c = e_course_id e) (courses d)))
          (filter (\<lambda>e. e_student_id e = student_id) (enrollments d))))"

text \<open>
  The handler chain of this endpoint is
  \<open>except HTTPException: raise\<close>, then \<open>except Error as e: ...\<close>.
  The module imports \<open>OperationalError\<close> and \<open>DatabaseError\<close> from psycopg and
  nothing called \<open>Error\<close>, so evaluating the second clause raises
  \<open>NameError\<close> in place of any exception that is not an HTTPException.
\<close>

definition except_Error :: "exn \<Rightarrow> exn" where
  "except_Error e =
     (case e of
        HTTPException code detail \<Rightarrow> HTTPException code detail
      | _ \<Rightarrow> NameError ''name 'Error' is not defined'')"

definition get_student_enrollments ::
    "fault \<Rightarrow> db \<Rightarrow> int \<Rightarrow> exn + student_course_row list" where
  "get_student_enrollments flt d student_id =
     (case then_res (get_db_connection flt) (\<lambda>_.
           then_res (execute flt 1) (\<lambda>_.
             case fetchone (filter (\<lambda>s. s_student_id s = student_id) (students d)) of
               None \<Rightarrow> Inl (HTTPException HTTP_404_NOT_FOUND
                         (''Student with ID '' @ str_int student_id @ '' not found''))
             | Some _ \<Rightarrow>
           then_res (execute flt 2) (\<lambda>_.
             Inr (select_student_courses d student_id)))) of
        Inl e \<Rightarrow> Inl (except_Error e)
      | Inr rows \<Rightarrow> Inr rows)"

text \<open>Its sibling \<open>get_student\<close> in the same module, with the usual handler chain.\<close>

definition get_student :: "fault \<Rightarrow> db \<Rightarrow> int \<Rightarrow> exn + student" where
  "get_student flt d student_id =
     (case then_res (get_db_connection flt) (\<lambda>_.
           then_res (execute flt 1) (\<lambda>_.
             case fetchone (filter (\<lambda>s. s_student_id s = student_id) (students d)) of
               None \<Rightarrow> Inl (HTTPException HTTP_404_NOT_FOUND
                         (''Student with ID '' @ str_int student_id @ '' not found''))
             | Some student \<Rightarrow> Inr student)) of
        Inl e \<Rightarrow> Inl (except_DatabaseError e)
      | Inr student \<Rightarrow> Inr student)"

section \<open>course-service\<close>

subsection \<open>The token table and verify_admin_token\<close>

text \<open>
  \<open>active_tokens\<close> is a dict in process memory: token to username and expiry.
\<close>

record token_entry =
  te_username :: string
  te_expires_at :: int

type_synonym active_tokens = "string \<rightharpoonup> token_entry"

text \<open>
  Python's \<open>s.replace(old, "")\<close> for a non-empty \<open>old\<close>: every occurrence of
  \<open>old\<close>, scanning from the left without overlap, is deleted.
\<close>

function str_remove :: "string \<Rightarrow> string \<Rightarrow> string" where
  "str_remove old [] = []"
| "str_remove old (x # xs) =
     (if old \<noteq> [] \<and> take (length old) (x # xs) = old
      then str_remove old (drop (length old) (x # xs))
      else x # str_remove old xs)"
  by pat_completeness auto
termination
  by (relation "measure (\<lambda>(old, s). length s)") auto

definition startswith :: "string \<Rightarrow> string \<Rightarrow> bool" where
  "startswith s p = (take (length p) s = p)"

definition timedelta_hours :: "int \<Rightarrow> int" where
  "timedelta_hours h = h * 3600 * 1000000"

text \<open>
  The dependency of every admin-gated route. \<open>now\<close> is what \<open>datetime.now()\<close>
  returns; the result is the username or the exception, with the token table afterwards.
\<close>

definition verify_admin_token ::
    "int \<Rightarrow> active_tokens \<Rightarrow> string option \<Rightarrow> (exn + string) \<times> active_tokens" where
  "verify_admin_token now tokens authorization =
     (case authorization of
        None \<Rightarrow> (Inl (HTTPException HTTP_401_UNAUTHORIZED ''Authorization header missing''),
                 tokens)
      | Some a \<Rightarrow>
          if a = [] then
            (Inl (HTTPException HTTP_401_UNAUTHORIZED ''Authorization header missing''), tokens)
          else if \<not> startswith a ''Bearer '' then
            (Inl (HTTPException HTTP_401_UNAUTHORIZED ''Invalid authorization header format''),
             tokens)
          else
            let token = str_remove ''Bearer '' a in
            (case tokens token of
               None \<Rightarrow>
                 (Inl (HTTPException HTTP_401_UNAUTHORIZED ''Invalid or expired token''), tokens)
             | Some entry \<Rightarrow>
                 if now > te_expires_at entry then
                   (Inl (HTTPException HTTP_401_UNAUTHORIZED ''Token expired''),
                    tokens(token := None))
                 else (Inr (te_username entry), tokens)))"

text \<open>
  \<open>admin: str = Depends(verify_admin_token)\<close>: the route's body runs only when the
  dependency returns; otherwise its exception is the response.
\<close>

definition Depends_verify_admin_token ::
    "int \<Rightarrow> active_tokens \<Rightarrow> string option
      \<Rightarrow> (string \<Rightarrow> active_tokens \<Rightarrow> (exn + 'a) \<times> active_tokens)
      \<Rightarrow> (exn + 'a) \<times> active_tokens" where
  "Depends_verify_admin_token now tokens authorization route =
     (case verify_admin_token now tokens authorization of
        (Inl e, tokens') \<Rightarrow> (Inl e, tokens')
      | (Inr admin, tokens') \<Rightarrow> route admin tokens')"

definition admin_logout ::
    "int \<Rightarrow> active_tokens \<Rightarrow> string option \<Rightarrow> (exn + string) \<times> active_tokens" where
  "admin_logout now tokens authorization =
     Depends_verify_admin_token now tokens authorization (\<lambda>admin tokens'.
       let token = str_remove ''Bearer '' (case authorization of Some a \<Rightarrow> a | None \<Rightarrow> [])
       in (Inr ''Logged out successfully'', tokens'(token := None)))"

subsection \<open>admin_login\<close>

record AdminLogin =
  al_username :: string
  al_password :: string

record login_response =
  lr_message :: string
  lr_token :: string
  lr_expires_at :: int
  lr_username :: string

text \<open>
  \<open>checkpw\<close> is \<open>bcrypt.checkpw\<close> (password, stored hash): it returns whether
  the password matches, or raises (a ValueError for a stored hash that is no bcrypt
  hash). The call stands inside the handler's try block, so what it raises meets the two
  except clauses, and neither catches a ValueError. \<open>new_token\<close> is what
  \<open>secrets.token_urlsafe(32)\<close> returns on this call, \<open>now\<close> what
  \<open>datetime.now()\<close> returns. The response carries the expiry as the timestamp that
  \<open>isoformat\<close> prints.
\<close>

definition admin_login ::
    "fault \<Rightarrow> (string \<Rightarrow> string \<Rightarrow> exn + bool) \<Rightarrow> string \<Rightarrow> int \<Rightarrow> db \<Rightarrow> active_tokens
      \<Rightarrow> AdminLogin \<Rightarrow> (exn + login_response) \<times> active_tokens" where
  "admin_login flt checkpw new_token now d tokens credentials =
     (case then_res (get_db_connection flt) (\<lambda>_.
           then_res (execute flt 1) (\<lambda>_.
             Inr (fetchone (filter (\<lambda>a. a_username a = al_username credentials) (admins d))))) of
        Inl e \<Rightarrow> (Inl (except_DatabaseError e), tokens)
      | Inr None \<Rightarrow> (Inl (HTTPException HTTP_401_UNAUTHORIZED ''Invalid credentials''), tokens)
      | Inr (Some admin) \<Rightarrow>
          (case checkpw (al_password credentials) (a_password_hash admin) of
             Inl e \<Rightarrow> (Inl (except_DatabaseError e), tokens)
           | Inr matches \<Rightarrow>
               if \<not> matches then
                 (Inl (HTTPException HTTP_401_UNAUTHORIZED ''Invalid credentials''), tokens)
               else
                 let token = new_token;
                     expires_at = now + timedelta_hours 8
                 in (Inr \<lparr>lr_message = ''Login successful'', lr_token = token,
                           lr_expires_at = expires_at, lr_username = a_username admin\<rparr>,
                     tokens(token \<mapsto> \<lparr>te_username = a_username admin,
                                       te_expires_at = expires_at\<rparr>))))"

subsection \<open>get_courses\<close>

text \<open>
  \<open>active_only: bool = True\<close> is a query parameter: None stands for a request that
  does not give it. \<open>ORDER BY course_code\<close> is a stable sort on the code (the
  datastore's collation is taken to be the order of the characters).
\<close>

definition get_courses :: "fault \<Rightarrow> db \<Rightarrow> bool option \<Rightarrow> exn + course list" where
  "get_courses flt d active_only_param =
     (let active_only = (case active_only_param of None \<Rightarrow> True | Some b \<Rightarrow> b) in
      case then_res (get_db_connection flt) (\<lambda>_.
           then_res (execute flt 1) (\<lambda>_.
             if active_only
             then Inr (sort_key c_course_code (filter (\<lambda>c. c_status c = ''active'') (courses d)))
             else Inr (sort_key c_course_code (courses d)))) of
        Inl e \<Rightarrow> Inl (except_DatabaseError e)
      | Inr rows \<Rightarrow> Inr rows)"

section \<open>Running several create_enrollment calls\<close>

text \<open>
  One after another: each call runs to its end on the state the call before left.
\<close>

fun run_sequential ::
    "db \<Rightarrow> (enrollment \<times> EnrollmentCreate) list
      \<Rightarrow> (exn + (string \<times> enrollment_detail option)) list \<times> db" where
  "run_sequential d [] = ([], d)"
| "run_sequential d (call # calls) =
     (case create_enrollment NoFault (fst call) d (snd call) of
        (r, d') \<Rightarrow> (case run_sequential d' calls of (rs, d'') \<Rightarrow> (r # rs, d'')))"

text \<open>
  Interleaved: the handler takes no lock and sets no isolation level, so between the
  reads of one call (its five checks) and its writes the datastore may run the reads and
  the writes of other calls. A call is in one of three stages; a schedule is the list of
  the calls that move, in order, and each move runs the next part of that call on the
  datastore as it is then: first the checks, then the insert, the increment and the commit.
\<close>

datatype stage = Started | Checked | Finished "exn + int"

definition advance ::
    "(enrollment \<times> EnrollmentCreate) \<Rightarrow> stage \<Rightarrow> db \<Rightarrow> stage \<times> db" where
  "advance call st d =
     (case st of
        Started \<Rightarrow>
          (case create_enrollment_checks NoFault d (snd call) of
             Inl e \<Rightarrow> (Finished (Inl (except_DatabaseError e)), d)
           | Inr _ \<Rightarrow> (Checked, d))
      | Checked \<Rightarrow>
          (case create_enrollment_writes NoFault (fst call) d (snd call) of
             Inl e \<Rightarrow> (Finished (Inl (except_DatabaseError e)), d)
           | Inr (tx, enrollment_id) \<Rightarrow> (Finished (Inr enrollment_id), tx))
      | Finished r \<Rightarrow> (Finished r, d))"

fun run_schedule ::
    "(enrollment \<times> EnrollmentCreate) list \<Rightarrow> nat list \<Rightarrow> stage list \<times> db \<Rightarrow> stage list \<times> db" where
  "run_schedule calls [] cfg = cfg"
| "run_schedule calls (i # sched) (stages, d) =
     (if i < length calls \<and> i < length stages
      then (case advance (calls ! i) (stages ! i) d of
              (st', d') \<Rightarrow> run_schedule calls sched (stages[i := st'], d'))
      else run_schedule calls sched (stages, d))"

section \<open>A small datastore for concrete runs\<close>

definition alice :: student where
  "alice = \<lparr>s_student_id = 1, s_name = ''Alice'', s_email = ''alice@example.org'',
            s_phone = None, s_registration_date = 100\<rparr>"

definition bob :: student where
  "bob = \<lparr>s_student_id = 2, s_name = ''Bob'', s_email = ''bob@example.org'',
          s_phone = Some ''555-0100'', s_registration_date = 200\<rparr>"

definition cs101 :: course where
  "cs101 = \<lparr>c_course_id = 1, c_course_code = ''CS101'', c_course_name = ''Programming'',
            c_description = None, c_credits = 3, c_instructor = None,
            c_max_capacity = 1, c_current_enrollment = 0, c_status = ''active''\<rparr>"

definition ma201 :: course where
  "ma201 = \<lparr>c_course_id = 2, c_course_code = ''MA201'', c_course_name = ''Algebra'',
            c_description = None, c_credits = 4, c_instructor = Some ''Noether'',
            c_max_capacity = 50, c_current_enrollment = 0, c_status = ''inactive''\<rparr>"

definition ph301 :: course where
  "ph301 = \<lparr>c_course_id = 3, c_course_code = ''PH301'', c_course_name = ''Optics'',
            c_description = None, c_credits = 3, c_instructor = None,
            c_max_capacity = 1, c_current_enrollment = 1, c_status = ''active''\<rparr>"

definition ch401 :: course where
  "ch401 = \<lparr>c_course_id = 4, c_course_code = ''CH401'', c_course_name = ''Kinetics'',
            c_description = None, c_credits = 2, c_instructor = None,
            c_max_capacity = 5, c_current_enrollment = 1, c_status = ''active''\<rparr>"

definition bob_in_ph301 :: enrollment where
  "bob_in_ph301 = \<lparr>e_enrollment_id = 1, e_student_id = 2, e_course_id = 3,
                   e_enrollment_date = 300, e_grade = None, e_status = ''enrolled''\<rparr>"

definition alice_in_ch401 :: enrollment where
  "alice_in_ch401 = \<lparr>e_enrollment_id = 2, e_student_id = 1, e_course_id = 4,
                     e_enrollment_date = 400, e_grade = Some ''B'', e_status = ''enrolled''\<rparr>"

definition campus :: db where
  "campus = \<lparr>students = [alice, bob], courses = [cs101, ma201, ph301, ch401],
             enrollments = [bob_in_ph301, alice_in_ch401],
             admins = [\<lparr>a_username = ''root'', a_password_hash = ''$2b$12$hash''\<rparr>],
             next_enrollment_id = 3\<rparr>"

text \<open>The values the schema's defaults give a new enrollment row at time 500.\<close>

definition new_row :: enrollment where
  "new_row = \<lparr>e_enrollment_id = 0, e_student_id = 0, e_course_id = 0,
              e_enrollment_date = 500, e_grade = None, e_status = ''enrolled''\<rparr>"

definition enrol :: "int \<Rightarrow> int \<Rightarrow> EnrollmentCreate" where
  "enrol sid cid = \<lparr>ec_student_id = sid, ec_course_id = cid\<rparr>"

text \<open>
  An inconsistent state: an enrollment in course 1 while the counter of course 1 is 0.
\<close>

definition bob_in_cs101 :: enrollment where
  "bob_in_cs101 = \<lparr>e_enrollment_id = 7, e_student_id = 2, e_course_id = 1,
                   e_enrollment_date = 450, e_grade = None, e_status = ''enrolled''\<rparr>"

definition drifted :: db where
  "drifted = campus\<lparr>enrollments := [bob_in_ph301, alice_in_ch401, bob_in_cs101],
                    next_enrollment_id := 8\<rparr>"

text \<open>
  A stand-in for bcrypt.checkpw: it raises ValueError "Invalid salt" for a stored hash
  that does not start like a bcrypt hash, and accepts one password for the hash of
  \<open>campus\<close>.
\<close>

definition demo_checkpw :: "string \<Rightarrow> string \<Rightarrow> exn + bool" where
  "demo_checkpw password hash =
     (if \<not> startswith hash ''$2'' then Inl (ValueError ''Invalid salt'')
      else Inr (password = ''hunter2'' \<and> hash = ''$2b$12$hash''))"

text \<open>The same datastore with an admin row whose stored hash is no bcrypt hash.\<close>

definition campus_plain_hash :: db where
  "campus_plain_hash =
     campus\<lparr>admins := [\<lparr>a_username = ''root'', a_password_hash = ''hunter2''\<rparr>]\<rparr>"

text \<open>A token table with one token, valid until time 10.\<close>

definition one_token :: active_tokens where
  "one_token = [''tok'' \<mapsto> \<lparr>te_username = ''root'', te_expires_at = 10\<rparr>]"

definition login_as :: "string \<Rightarrow> string \<Rightarrow> AdminLogin" where
  "login_as username password = \<lparr>al_username = username, al_password = password\<rparr>"

text \<open>Alice and Bob both ask for the one seat of course 1.\<close>

definition two_calls :: "(enrollment \<times> EnrollmentCreate) list" where
  "two_calls = [(new_row, enrol 1 1), (new_row, enrol 2 1)]"

section \<open>Basic facts\<close>

declare str_nat.simps [simp del]

lemma then_res_Inl: "then_res (Inl e) f = Inl e"
  by (simp add: then_res_def)

lemma then_res_Inr: "then_res (Inr x) f = f x"
  by (simp add: then_res_def)

lemma execute_NoFault: "execute NoFault k = Inr ()"
  by (simp add: execute_def)

lemma get_db_connection_NoFault: "get_db_connection NoFault = Inr ()"
  by (simp add: get_db_connection_def psycopg_connect_def)

lemma fetchone_filter: "fetchone (filter P xs) = find P xs"
  by (induction xs) (auto simp: fetchone_def)

lemma find_None_set: "find P xs = None \<longleftrightarrow> (\<forall>x\<in>set xs. \<not> P x)"
  by (auto simp: find_None_iff)

lemma find_Some_set: "find P xs = Some x \<Longrightarrow> x \<in> set xs \<and> P x"
  by (auto simp: find_Some_iff)

lemma find_exists: "(\<exists>x\<in>set xs. P x) \<Longrightarrow> \<exists>y. find P xs = Some y"
  by (cases "find P xs") (auto simp: find_None_iff)

lemmas campus_defs = campus_def alice_def bob_def cs101_def ma201_def ph301_def ch401_def
  bob_in_ph301_def alice_in_ch401_def new_row_def enrol_def

section \<open>create_enrollment: the checks and the writes\<close>

lemma create_enrollment_checks_NoFault:
  "create_enrollment_checks NoFault d enrollment =
     (case find (\<lambda>s. s_student_id s = ec_student_id enrollment) (students d) of
        None \<Rightarrow> Inl (HTTPException 404
                  (''Student with ID '' @ str_int (ec_student_id enrollment) @ '' not found''))
      | Some student \<Rightarrow>
     (case find (\<lambda>c. c_course_id c = ec_course_id enrollment) (courses d) of
        None \<Rightarrow> Inl (HTTPException 404
                  (''Course with ID '' @ str_int (ec_course_id enrollment) @ '' not found''))
      | Some course \<Rightarrow>
          if c_status course \<noteq> ''active''
          then Inl (HTTPException 400 ''Course is not active'')
          else if c_current_enrollment course \<ge> c_max_capacity course
          then Inl (HTTPException 400 ''Course is full'')
          else
     (case find (\<lambda>e. e_student_id e = ec_student_id enrollment
                      \<and> e_course_id e = ec_course_id enrollment) (enrollments d) of
        Some _ \<Rightarrow> Inl (HTTPException 400 ''Student is already enrolled in this course'')
      | None \<Rightarrow> Inr ())))"
  by (simp add: create_enrollment_checks_def execute_NoFault then_res_Inr fetchone_filter
      split: option.splits)

lemma create_enrollment_writes_NoFault:
  "create_enrollment_writes NoFault dflt d enrollment =
     Inr (increment_current_enrollment (ec_course_id enrollment)
            (insert_enrollment dflt d enrollment), next_enrollment_id d)"
  by (simp add: create_enrollment_writes_def execute_NoFault then_res_Inr)

lemma create_enrollment_checks_error:
  "create_enrollment_checks flt d enrollment = Inl e \<Longrightarrow>
     (\<exists>code detail. e = HTTPException code detail) \<or> (\<exists>m. e = DatabaseError m)"
  by (auto simp: create_enrollment_checks_def execute_def then_res_def
      split: fault.splits if_splits option.splits)

lemma create_enrollment_NoFault:
  "create_enrollment NoFault dflt d enrollment =
     (case create_enrollment_checks NoFault d enrollment of
        Inl e \<Rightarrow> (Inl e, d)
      | Inr _ \<Rightarrow>
          (Inr (''Enrollment created successfully'',
                fetchone (select_enrollment_details
                  (increment_current_enrollment (ec_course_id enrollment)
                     (insert_enrollment dflt d enrollment))
                  (\<lambda>e. e_enrollment_id e = next_enrollment_id d))),
           increment_current_enrollment (ec_course_id enrollment)
             (insert_enrollment dflt d enrollment)))"
proof (cases "create_enrollment_checks NoFault d enrollment")
  case (Inl e)
  then have "\<exists>code detail. e = HTTPException code detail"
    by (auto simp: create_enrollment_checks_NoFault split: option.splits if_splits)
  then have "except_DatabaseError e = e"
    by (auto simp: except_DatabaseError_def)
  with Inl show ?thesis
    by (simp add: create_enrollment_def get_db_connection_NoFault then_res_Inr then_res_Inl)
next
  case (Inr u)
  then show ?thesis
    by (simp add: create_enrollment_def get_db_connection_NoFault then_res_Inr
        create_enrollment_writes_NoFault create_enrollment_response_def execute_NoFault)
qed

lemma find_filter_Cons: "find P xs = Some x \<Longrightarrow> \<exists>rest. filter P xs = x # rest"
  by (induction xs) (auto split: if_splits)

lemma find_map_preserving:
  assumes "\<And>x. P (f x) = P x"
  shows "find P (map f xs) = map_option f (find P xs)"
  using assms by (induction xs) auto

lemma find_course_increment:
  "find (\<lambda>c. c_course_id c = cid) (courses (increment_current_enrollment cid' d)) =
     map_option (\<lambda>c. if c_course_id c = cid'
                       then c\<lparr>c_current_enrollment := c_current_enrollment c + 1\<rparr> else c)
       (find (\<lambda>c. c_course_id c = cid) (courses d))"
  unfolding increment_current_enrollment_def
  by (simp add: find_map_preserving)

lemma insert_enrollment_fields:
  "students (insert_enrollment dflt d enrollment) = students d"
  "courses (insert_enrollment dflt d enrollment) = courses d"
  "admins (insert_enrollment dflt d enrollment) = admins d"
  "next_enrollment_id (insert_enrollment dflt d enrollment) = next_enrollment_id d + 1"
  "enrollments (insert_enrollment dflt d enrollment) = enrollments d @
          [dflt\<lparr>e_enrollment_id := next_enrollment_id d,
                e_student_id := ec_student_id enrollment,
                e_course_id := ec_course_id enrollment\<rparr>]"
  by (simp_all add: insert_enrollment_def)

lemma increment_current_enrollment_fields:
  "students (increment_current_enrollment cid d) = students d"
  "enrollments (increment_current_enrollment cid d) = enrollments d"
  "admins (increment_current_enrollment cid d) = admins d"
  "next_enrollment_id (increment_current_enrollment cid d) = next_enrollment_id d"
  by (simp_all add: increment_current_enrollment_def)

lemma select_enrollment_details_single:
  assumes "filter P (enrollments d) = [e]"
    and "find (\<lambda>s. s_student_id s = e_student_id e) (students d) = Some s"
    and "find (\<lambda>c. c_course_id c = e_course_id e) (courses d) = Some c"
  shows "fetchone (select_enrollment_details d P) = Some (mk_detail e s c)"
proof -
  obtain ss where ss: "filter (\<lambda>s. s_student_id s = e_student_id e) (students d) = s # ss"
    using find_filter_Cons [OF assms(2)] by blast
  obtain cs where cs: "filter (\<lambda>c. c_course_id c = e_course_id e) (courses d) = c # cs"
    using find_filter_Cons [OF assms(3)] by blast
  show ?thesis
    by (simp add: select_enrollment_details_def assms(1) ss cs fetchone_def)
qed

lemma create_enrollment_pre_commit_state:
  "(case then_res (get_db_connection flt) (\<lambda>_.
             then_res (create_enrollment_checks flt d enrollment) (\<lambda>_.
               create_enrollment_writes flt dflt d enrollment)) of
      Inl e \<Rightarrow> True
    | Inr (tx, i) \<Rightarrow> tx = increment_current_enrollment (ec_course_id enrollment)
                            (insert_enrollment dflt d enrollment) \<and> i = next_enrollment_id d)"
  by (auto simp: then_res_def create_enrollment_writes_def Let_def split: sum.splits)

lemma create_enrollment_committed:
  "snd (create_enrollment flt dflt d enrollment) = d \<or>
   snd (create_enrollment flt dflt d enrollment) =
     increment_current_enrollment (ec_course_id enrollment) (insert_enrollment dflt d enrollment)"
  using create_enrollment_pre_commit_state [where flt = flt and d = d and enrollment = enrollment and dflt = dflt]
  by (auto simp: create_enrollment_def split: sum.splits prod.splits)

lemma create_enrollment_response_error:
  "create_enrollment_response flt tx i = Inl e \<Longrightarrow> \<exists>m. e = DatabaseError m"
  by (auto simp: create_enrollment_response_def execute_def then_res_def
      split: fault.splits if_splits)

section \<open>The claims\<close>

text \<open>
  C2. With the datastore answering every call, create_enrollment checks in this order:
  the student exists, the course exists, the course is active, the course is not full,
  the pair is not enrolled yet. The first check that fails decides the exception: 404
  "Student with ID n not found", 404 "Course with ID n not found", 400 "Course is not
  active", 400 "Course is full", 400 "Student is already enrolled in this course"; when
  all pass the handler returns. The five exceptions are pairwise different. The course's
  row is the first one the SELECT returns.
\<close>

theorem create_enrollment_check_order:
  fixes d :: db and enrollment :: EnrollmentCreate and dflt :: enrollment
  defines "sid \<equiv> ec_student_id enrollment" and "cid \<equiv> ec_course_id enrollment"
  defines "r \<equiv> fst (create_enrollment NoFault dflt d enrollment)"
  defines "student_exists \<equiv> (\<exists>s\<in>set (students d). s_student_id s = sid)"
  defines "course_row \<equiv> find (\<lambda>c. c_course_id c = cid) (courses d)"
  defines "enrolled \<equiv> (\<exists>e\<in>set (enrollments d). e_student_id e = sid \<and> e_course_id e = cid)"
  shows "(\<not> student_exists \<longrightarrow>
            r = Inl (HTTPException 404 (''Student with ID '' @ str_int sid @ '' not found'')))
       \<and> (student_exists \<and> course_row = None \<longrightarrow>
            r = Inl (HTTPException 404 (''Course with ID '' @ str_int cid @ '' not found'')))
       \<and> (student_exists \<and> course_row = Some c \<and> c_status c \<noteq> ''active'' \<longrightarrow>
            r = Inl (HTTPException 400 ''Course is not active''))
       \<and> (student_exists \<and> course_row = Some c \<and> c_status c = ''active''
            \<and> c_max_capacity c \<le> c_current_enrollment c \<longrightarrow>
            r = Inl (HTTPException 400 ''Course is full''))
       \<and> (student_exists \<and> course_row = Some c \<and> c_status c = ''active''
            \<and> c_current_enrollment c < c_max_capacity c \<and> enrolled \<longrightarrow>
            r = Inl (HTTPException 400 ''Student is already enrolled in this course''))
       \<and> (student_exists \<and> course_row = Some c \<and> c_status c = ''active''
            \<and> c_current_enrollment c < c_max_capacity c \<and> \<not> enrolled \<longrightarrow>
            (\<exists>x. r = Inr x))
       \<and> distinct [HTTPException 404 (''Student with ID '' @ str_int sid @ '' not found''),
                   HTTPException 404 (''Course with ID '' @ str_int cid @ '' not found''),
                   HTTPException 400 ''Course is not active'',
                   HTTPException 400 ''Course is full'',
                   HTTPException 400 ''Student is already enrolled in this course'']"
proof -
  have s0: "\<not> student_exists \<Longrightarrow> find (\<lambda>s. s_student_id s = sid) (students d) = None"
    unfolding student_exists_def by (auto simp: find_None_iff)
  have s1: "student_exists \<Longrightarrow> \<exists>s. find (\<lambda>s. s_student_id s = sid) (students d) = Some s"
    unfolding student_exists_def by (rule find_exists)
  have e0: "\<not> enrolled \<Longrightarrow>
      find (\<lambda>e. e_student_id e = sid \<and> e_course_id e = cid) (enrollments d) = None"
    unfolding enrolled_def by (auto simp: find_None_iff)
  have e1: "enrolled \<Longrightarrow>
      \<exists>e. find (\<lambda>e. e_student_id e = sid \<and> e_course_id e = cid) (enrollments d) = Some e"
    unfolding enrolled_def by (rule find_exists)
  have c1: "\<not> student_exists \<longrightarrow>
            r = Inl (HTTPException 404 (''Student with ID '' @ str_int sid @ '' not found''))"
    using s0 unfolding r_def sid_def cid_def
    by (simp add: create_enrollment_NoFault create_enrollment_checks_NoFault)
  have c2: "student_exists \<and> course_row = None \<longrightarrow>
            r = Inl (HTTPException 404 (''Course with ID '' @ str_int cid @ '' not found''))"
    using s1 unfolding r_def sid_def cid_def course_row_def
    by (auto simp: create_enrollment_NoFault create_enrollment_checks_NoFault)
  have c3: "student_exists \<and> course_row = Some c \<and> c_status c \<noteq> ''active'' \<longrightarrow>
            r = Inl (HTTPException 400 ''Course is not active'')"
    using s1 unfolding r_def sid_def cid_def course_row_def
    by (auto simp: create_enrollment_NoFault create_enrollment_checks_NoFault)
  have c4: "student_exists \<and> course_row = Some c \<and> c_status c = ''active''
            \<and> c_max_capacity c \<le> c_current_enrollment c \<longrightarrow>
            r = Inl (HTTPException 400 ''Course is full'')"
    using s1 unfolding r_def sid_def cid_def course_row_def
    by (auto simp: create_enrollment_NoFault create_enrollment_checks_NoFault)
  have c5: "student_exists \<and> course_row = Some c \<and> c_status c = ''active''
            \<and> c_current_enrollment c < c_max_capacity c \<and> enrolled \<longrightarrow>
            r = Inl (HTTPException 400 ''Student is already enrolled in this course'')"
    using s1 e1 unfolding r_def sid_def cid_def course_row_def
    by (auto simp: create_enrollment_NoFault create_enrollment_checks_NoFault)
  have c6: "student_exists \<and> course_row = Some c \<and> c_status c = ''active''
            \<and> c_current_enrollment c < c_max_capacity c \<and> \<not> enrolled \<longrightarrow>
            (\<exists>x. r = Inr x)"
    using s1 e0 unfolding r_def sid_def cid_def course_row_def
    by (auto simp: create_enrollment_NoFault create_enrollment_checks_NoFault)
  have c7: "distinct [HTTPException 404 (''Student with ID '' @ str_int sid @ '' not found''),
                   HTTPException 404 (''Course with ID '' @ str_int cid @ '' not found''),
                   HTTPException 400 ''Course is not active'',
                   HTTPException 400 ''Course is full'',
                   HTTPException 400 ''Student is already enrolled in this course'']"
    by simp
  from c1 c2 c3 c4 c5 c6 c7 show ?thesis by blast
qed

theorem create_enrollment_check_order_witness:
  "fst (create_enrollment NoFault new_row campus (enrol 9 999))
     = Inl (HTTPException 404 ''Student with ID 9 not found'')
   \<and> fst (create_enrollment NoFault new_row campus (enrol 1 999))
     = Inl (HTTPException 404 ''Course with ID 999 not found'')
   \<and> fst (create_enrollment NoFault new_row campus (enrol 1 2))
     = Inl (HTTPException 400 ''Course is not active'')
   \<and> fst (create_enrollment NoFault new_row campus (enrol 2 3))
     = Inl (HTTPException 400 ''Course is full'')
   \<and> fst (create_enrollment NoFault new_row campus (enrol 1 4))
     = Inl (HTTPException 400 ''Student is already enrolled in this course'')
   \<and> (\<exists>x. fst (create_enrollment NoFault new_row campus (enrol 1 1)) = Inr x)"
  using create_enrollment_check_order [where d = campus and enrollment = "enrol 9 999" and c = cs101 and dflt = new_row]
    create_enrollment_check_order [where d = campus and enrollment = "enrol 1 999" and c = cs101 and dflt = new_row]
    create_enrollment_check_order [where d = campus and enrollment = "enrol 1 2" and c = ma201 and dflt = new_row]
    create_enrollment_check_order [where d = campus and enrollment = "enrol 2 3" and c = ph301 and dflt = new_row]
    create_enrollment_check_order [where d = campus and enrollment = "enrol 1 4" and c = ch401 and dflt = new_row]
    create_enrollment_check_order [where d = campus and enrollment = "enrol 1 1" and c = cs101 and dflt = new_row]
  by (simp add: campus_defs str_int_def str_nat.simps)

text \<open>
  C3. When the datastore answers every call and the five checks pass, create_enrollment
  commits one state in which the new row for (student_id, course_id) is appended to the
  enrollments and the course's current_enrollment is one higher, and returns that row
  with the student's name and email and the course's code, name and credits. Whatever
  the datastore does, the committed state is either the old one or the one with both
  writes, never one write alone. The id of the new row comes from the sequence, which is
  taken to give an id no row has.
\<close>

theorem create_enrollment_success:
  fixes d :: db and enrollment :: EnrollmentCreate and dflt :: enrollment
  defines "sid \<equiv> ec_student_id enrollment" and "cid \<equiv> ec_course_id enrollment"
  defines "row \<equiv> dflt\<lparr>e_enrollment_id := next_enrollment_id d,
                        e_student_id := sid, e_course_id := cid\<rparr>"
  defines "d' \<equiv> snd (create_enrollment NoFault dflt d enrollment)"
  assumes student: "find (\<lambda>x. s_student_id x = sid) (students d) = Some s"
    and course: "find (\<lambda>x. c_course_id x = cid) (courses d) = Some c"
    and active: "c_status c = ''active''"
    and room: "c_current_enrollment c < c_max_capacity c"
    and not_enrolled: "\<forall>e\<in>set (enrollments d). \<not> (e_student_id e = sid \<and> e_course_id e = cid)"
    and fresh: "\<forall>e\<in>set (enrollments d). e_enrollment_id e \<noteq> next_enrollment_id d"
  shows "fst (create_enrollment NoFault dflt d enrollment) =
           Inr (''Enrollment created successfully'',
                Some \<lparr>ed_enrollment = row,
                      ed_student_name = s_name s, ed_student_email = s_email s,
                      ed_course_code = c_course_code c, ed_course_name = c_course_name c,
                      ed_credits = c_credits c\<rparr>)
       \<and> enrollments d' = enrollments d @ [row]
       \<and> courses d' = map (\<lambda>x. if c_course_id x = cid
                                then x\<lparr>c_current_enrollment := c_current_enrollment x + 1\<rparr>
                                else x) (courses d)
       \<and> find (\<lambda>x. c_course_id x = cid) (courses d') =
           Some (c\<lparr>c_current_enrollment := c_current_enrollment c + 1\<rparr>)
       \<and> students d' = students d \<and> admins d' = admins d
       \<and> (\<forall>flt. snd (create_enrollment flt dflt d enrollment) = d
                \<or> snd (create_enrollment flt dflt d enrollment) = d')"
proof -
  let ?tx = "increment_current_enrollment cid (insert_enrollment dflt d enrollment)"
  have dup: "find (\<lambda>e. e_student_id e = sid \<and> e_course_id e = cid) (enrollments d) = None"
    using not_enrolled by (auto simp: find_None_iff)
  have checks: "create_enrollment_checks NoFault d enrollment = Inr ()"
    using student course active room dup
    by (simp add: create_enrollment_checks_NoFault sid_def cid_def)
  have d': "d' = ?tx"
    by (simp add: d'_def create_enrollment_NoFault checks cid_def)
  have rows: "enrollments ?tx = enrollments d @ [row]"
    by (simp add: increment_current_enrollment_fields insert_enrollment_fields
        row_def sid_def cid_def)
  have sel: "filter (\<lambda>e. e_enrollment_id e = next_enrollment_id d) (enrollments ?tx) = [row]"
    using fresh by (simp add: rows row_def)
  have c': "find (\<lambda>x. c_course_id x = cid) (courses ?tx) =
              Some (c\<lparr>c_current_enrollment := c_current_enrollment c + 1\<rparr>)"
    using course find_Some_set [OF course]
    by (simp add: find_course_increment insert_enrollment_fields)
  have s': "find (\<lambda>x. s_student_id x = sid) (students ?tx) = Some s"
    using student
    by (simp add: increment_current_enrollment_fields insert_enrollment_fields)
  have "fetchone (select_enrollment_details ?tx (\<lambda>e. e_enrollment_id e = next_enrollment_id d))
          = Some (mk_detail row s (c\<lparr>c_current_enrollment := c_current_enrollment c + 1\<rparr>))"
    by (rule select_enrollment_details_single [OF sel])
       (simp_all add: row_def s' c')
  then have r: "fst (create_enrollment NoFault dflt d enrollment) =
           Inr (''Enrollment created successfully'',
                Some \<lparr>ed_enrollment = row,
                      ed_student_name = s_name s, ed_student_email = s_email s,
                      ed_course_code = c_course_code c, ed_course_name = c_course_name c,
                      ed_credits = c_credits c\<rparr>)"
    by (simp add: create_enrollment_NoFault checks cid_def mk_detail_def)
  have cs: "courses ?tx = map (\<lambda>x. if c_course_id x = cid
                                then x\<lparr>c_current_enrollment := c_current_enrollment x + 1\<rparr>
                                else x) (courses d)"
    by (simp add: increment_current_enrollment_def insert_enrollment_def)
  have frame: "students ?tx = students d \<and> admins ?tx = admins d"
    by (simp add: increment_current_enrollment_fields insert_enrollment_fields)
  have atomic: "\<forall>flt. snd (create_enrollment flt dflt d enrollment) = d
                \<or> snd (create_enrollment flt dflt d enrollment) = d'"
    using create_enrollment_committed [of _ dflt d enrollment]
    by (simp add: d' cid_def)
  from r rows cs c' frame atomic show ?thesis
    unfolding d' by blast
qed

theorem create_enrollment_success_witness:
  "find (\<lambda>x. s_student_id x = 1) (students campus) = Some alice
   \<and> find (\<lambda>x. c_course_id x = 1) (courses campus) = Some cs101
   \<and> c_status cs101 = ''active''
   \<and> c_current_enrollment cs101 < c_max_capacity cs101
   \<and> list_all (\<lambda>e. \<not> (e_student_id e = 1 \<and> e_course_id e = 1)) (enrollments campus)
   \<and> list_all (\<lambda>e. e_enrollment_id e \<noteq> next_enrollment_id campus) (enrollments campus)
   \<and> fst (create_enrollment NoFault new_row campus (enrol 1 1)) =
       Inr (''Enrollment created successfully'',
            Some \<lparr>ed_enrollment = \<lparr>e_enrollment_id = 3, e_student_id = 1, e_course_id = 1,
                                    e_enrollment_date = 500, e_grade = None,
                                    e_status = ''enrolled''\<rparr>,
                  ed_student_name = ''Alice'', ed_student_email = ''alice@example.org'',
                  ed_course_code = ''CS101'', ed_course_name = ''Programming'',
                  ed_credits = 3\<rparr>)
   \<and> find (\<lambda>x. c_course_id x = 1)
        (courses (snd (create_enrollment NoFault new_row campus (enrol 1 1)))) =
       Some (cs101\<lparr>c_current_enrollment := 1\<rparr>)"
proof -
  have h1: "find (\<lambda>x. s_student_id x = ec_student_id (enrol 1 1)) (students campus) = Some alice"
    by (simp add: campus_defs)
  have h2: "find (\<lambda>x. c_course_id x = ec_course_id (enrol 1 1)) (courses campus) = Some cs101"
    by (simp add: campus_defs)
  have h3: "c_status cs101 = ''active''" by (simp add: cs101_def)
  have h4: "c_current_enrollment cs101 < c_max_capacity cs101" by (simp add: cs101_def)
  have h5: "\<forall>e\<in>set (enrollments campus).
              \<not> (e_student_id e = ec_student_id (enrol 1 1) \<and> e_course_id e = ec_course_id (enrol 1 1))"
    by (simp add: campus_defs)
  have h6: "\<forall>e\<in>set (enrollments campus). e_enrollment_id e \<noteq> next_enrollment_id campus"
    by (simp add: campus_defs)
  show ?thesis
    using create_enrollment_success [OF h1 h2 h3 h4 h5 h6, of new_row] h1 h2 h3 h4 h5 h6
    by (simp add: campus_defs)
qed

subsection \<open>delete_enrollment\<close>

lemma delete_enrollment_tx_NoFault:
  "delete_enrollment_tx NoFault d enrollment_id =
     (case find (\<lambda>e. e_enrollment_id e = enrollment_id) (enrollments d) of
        None \<Rightarrow> Inl (HTTPException 404
                  (''Enrollment with ID '' @ str_int enrollment_id @ '' not found''))
      | Some enrollment \<Rightarrow>
          Inr (decrement_current_enrollment (e_course_id enrollment)
                 (delete_from_enrollments enrollment_id d)))"
  by (simp add: delete_enrollment_tx_def get_db_connection_NoFault execute_NoFault
      then_res_Inr fetchone_filter split: option.splits)

lemma delete_enrollment_tx_state:
  "delete_enrollment_tx flt d enrollment_id = Inr tx \<Longrightarrow>
     \<exists>e. find (\<lambda>e. e_enrollment_id e = enrollment_id) (enrollments d) = Some e
        \<and> tx = decrement_current_enrollment (e_course_id e)
                 (delete_from_enrollments enrollment_id d)"
  by (auto simp: delete_enrollment_tx_def then_res_def fetchone_filter Let_def
      split: sum.splits option.splits)

lemma find_course_decrement:
  "find (\<lambda>c. c_course_id c = cid) (courses (decrement_current_enrollment cid' d)) =
     map_option (\<lambda>c. if c_course_id c = cid'
                       then c\<lparr>c_current_enrollment := max (c_current_enrollment c - 1) 0\<rparr>
                       else c)
       (find (\<lambda>c. c_course_id c = cid) (courses d))"
  unfolding decrement_current_enrollment_def
  by (simp add: find_map_preserving)

text \<open>
  C4. delete_enrollment on an id that no row has raises 404 "Enrollment with ID n not
  found" and leaves the state as it was. On an existing row (the first with that id) it
  commits one state in which the rows with that id are gone and the current_enrollment
  of the course the row refers to is max (current_enrollment - 1) 0, so it is never
  negative, even when the counter was 0 before; students and admins are untouched.
  Whatever the datastore does, the committed state is the old one or the one with both
  writes.
\<close>

theorem delete_enrollment_effect:
  fixes d :: db and enrollment_id :: int
  defines "row \<equiv> find (\<lambda>e. e_enrollment_id e = enrollment_id) (enrollments d)"
  defines "d' \<equiv> snd (delete_enrollment NoFault d enrollment_id)"
  shows "(row = None \<longrightarrow>
            delete_enrollment NoFault d enrollment_id =
              (Inl (HTTPException 404
                 (''Enrollment with ID '' @ str_int enrollment_id @ '' not found'')), d))
       \<and> (row = Some e \<longrightarrow>
            fst (delete_enrollment NoFault d enrollment_id) =
              Inr (''Enrollment '' @ str_int enrollment_id @ '' deleted successfully'')
          \<and> enrollments d' = filter (\<lambda>x. e_enrollment_id x \<noteq> enrollment_id) (enrollments d)
          \<and> courses d' =
              map (\<lambda>c. if c_course_id c = e_course_id e
                        then c\<lparr>c_current_enrollment := max (c_current_enrollment c - 1) 0\<rparr>
                        else c) (courses d)
          \<and> (\<forall>c. find (\<lambda>x. c_course_id x = e_course_id e) (courses d) = Some c \<longrightarrow>
                find (\<lambda>x. c_course_id x = e_course_id e) (courses d') =
                  Some (c\<lparr>c_current_enrollment := max (c_current_enrollment c - 1) 0\<rparr>))
          \<and> (\<forall>c\<in>set (courses d'). c_course_id c = e_course_id e \<longrightarrow>
                0 \<le> c_current_enrollment c)
          \<and> students d' = students d \<and> admins d' = admins d)
       \<and> (\<forall>flt. snd (delete_enrollment flt d enrollment_id) = d
                \<or> snd (delete_enrollment flt d enrollment_id) = d')"
proof -
  have none: "row = None \<longrightarrow>
            delete_enrollment NoFault d enrollment_id =
              (Inl (HTTPException 404
                 (''Enrollment with ID '' @ str_int enrollment_id @ '' not found'')), d)"
    by (simp add: row_def delete_enrollment_def delete_enrollment_tx_NoFault
        except_DatabaseError_def)
  have some: "row = Some e \<longrightarrow>
            fst (delete_enrollment NoFault d enrollment_id) =
              Inr (''Enrollment '' @ str_int enrollment_id @ '' deleted successfully'')
          \<and> enrollments d' = filter (\<lambda>x. e_enrollment_id x \<noteq> enrollment_id) (enrollments d)
          \<and> courses d' =
              map (\<lambda>c. if c_course_id c = e_course_id e
                        then c\<lparr>c_current_enrollment := max (c_current_enrollment c - 1) 0\<rparr>
                        else c) (courses d)
          \<and> (\<forall>c. find (\<lambda>x. c_course_id x = e_course_id e) (courses d) = Some c \<longrightarrow>
                find (\<lambda>x. c_course_id x = e_course_id e) (courses d') =
                  Some (c\<lparr>c_current_enrollment := max (c_current_enrollment c - 1) 0\<rparr>))
          \<and> (\<forall>c\<in>set (courses d'). c_course_id c = e_course_id e \<longrightarrow>
                0 \<le> c_current_enrollment c)
          \<and> students d' = students d \<and> admins d' = admins d"
  proof
    assume row: "row = Some e"
    let ?tx = "decrement_current_enrollment (e_course_id e)
                 (delete_from_enrollments enrollment_id d)"
    have tx: "delete_enrollment_tx NoFault d enrollment_id = Inr ?tx"
      using row by (simp add: row_def delete_enrollment_tx_NoFault)
    have d': "d' = ?tx"
      by (simp add: d'_def delete_enrollment_def tx)
    have a: "fst (delete_enrollment NoFault d enrollment_id) =
              Inr (''Enrollment '' @ str_int enrollment_id @ '' deleted successfully'')"
      by (simp add: delete_enrollment_def tx)
    have b: "enrollments ?tx = filter (\<lambda>x. e_enrollment_id x \<noteq> enrollment_id) (enrollments d)"
      by (simp add: decrement_current_enrollment_def delete_from_enrollments_def)
    have c: "courses ?tx =
              map (\<lambda>c. if c_course_id c = e_course_id e
                        then c\<lparr>c_current_enrollment := max (c_current_enrollment c - 1) 0\<rparr>
                        else c) (courses d)"
      by (simp add: decrement_current_enrollment_def delete_from_enrollments_def)
    have f: "\<forall>c. find (\<lambda>x. c_course_id x = e_course_id e) (courses d) = Some c \<longrightarrow>
                find (\<lambda>x. c_course_id x = e_course_id e) (courses ?tx) =
                  Some (c\<lparr>c_current_enrollment := max (c_current_enrollment c - 1) 0\<rparr>)"
      by (auto simp: find_course_decrement delete_from_enrollments_def dest: find_Some_set)
    have g: "\<forall>c\<in>set (courses ?tx). c_course_id c = e_course_id e \<longrightarrow>
                0 \<le> c_current_enrollment c"
      unfolding c by (auto split: if_splits)
    have h: "students ?tx = students d \<and> admins ?tx = admins d"
      by (simp add: decrement_current_enrollment_def delete_from_enrollments_def)
    from a b c f g h show "fst (delete_enrollment NoFault d enrollment_id) =
              Inr (''Enrollment '' @ str_int enrollment_id @ '' deleted successfully'')
          \<and> enrollments d' = filter (\<lambda>x. e_enrollment_id x \<noteq> enrollment_id) (enrollments d)
          \<and> courses d' =
              map (\<lambda>c. if c_course_id c = e_course_id e
                        then c\<lparr>c_current_enrollment := max (c_current_enrollment c - 1) 0\<rparr>
                        else c) (courses d)
          \<and> (\<forall>c. find (\<lambda>x. c_course_id x = e_course_id e) (courses d) = Some c \<longrightarrow>
                find (\<lambda>x. c_course_id x = e_course_id e) (courses d') =
                  Some (c\<lparr>c_current_enrollment := max (c_current_enrollment c - 1) 0\<rparr>))
          \<and> (\<forall>c\<in>set (courses d'). c_course_id c = e_course_id e \<longrightarrow>
                0 \<le> c_current_enrollment c)
          \<and> students d' = students d \<and> admins d' = admins d"
      unfolding d' by blast
  qed
  have atomic: "\<forall>flt. snd (delete_enrollment flt d enrollment_id) = d
                \<or> snd (delete_enrollment flt d enrollment_id) = d'"
  proof
    fix flt
    show "snd (delete_enrollment flt d enrollment_id) = d
                \<or> snd (delete_enrollment flt d enrollment_id) = d'"
    proof (cases "delete_enrollment_tx flt d enrollment_id")
      case (Inl x)
      then show ?thesis by (simp add: delete_enrollment_def)
    next
      case (Inr tx)
      from delete_enrollment_tx_state [OF Inr] obtain e' where
        e': "find (\<lambda>e. e_enrollment_id e = enrollment_id) (enrollments d) = Some e'"
        and tx: "tx = decrement_current_enrollment (e_course_id e')
                 (delete_from_enrollments enrollment_id d)" by blast
      have "d' = tx"
        by (simp add: d'_def delete_enrollment_def delete_enrollment_tx_NoFault e' tx)
      with Inr show ?thesis by (simp add: delete_enrollment_def)
    qed
  qed
  from none some atomic show ?thesis by blast
qed

theorem delete_enrollment_effect_witness:
  "delete_enrollment NoFault campus 99 =
     (Inl (HTTPException 404 ''Enrollment with ID 99 not found''), campus)
   \<and> find (\<lambda>e. e_enrollment_id e = 7) (enrollments drifted) = Some bob_in_cs101
   \<and> find (\<lambda>x. c_course_id x = 1) (courses drifted) = Some cs101
   \<and> c_current_enrollment cs101 = 0
   \<and> fst (delete_enrollment NoFault drifted 7) = Inr ''Enrollment 7 deleted successfully''
   \<and> enrollments (snd (delete_enrollment NoFault drifted 7)) = [bob_in_ph301, alice_in_ch401]
   \<and> find (\<lambda>x. c_course_id x = 1) (courses (snd (delete_enrollment NoFault drifted 7)))
       = Some (cs101\<lparr>c_current_enrollment := 0\<rparr>)
   \<and> find (\<lambda>x. c_course_id x = 3) (courses (snd (delete_enrollment NoFault campus 1)))
       = Some (ph301\<lparr>c_current_enrollment := 0\<rparr>)"
  using delete_enrollment_effect [where d = campus and enrollment_id = 99 and e = bob_in_cs101]
    delete_enrollment_effect [where d = drifted and enrollment_id = 7 and e = bob_in_cs101]
    delete_enrollment_effect [where d = campus and enrollment_id = 1 and e = bob_in_ph301]
  by (simp add: campus_defs drifted_def bob_in_cs101_def str_int_def str_nat.simps)

subsection \<open>update_enrollment\<close>

lemma fold_set_column:
  "fold set_column (zip (update_fields u) (update_values u)) x =
     x\<lparr>e_grade := (case eu_grade u of None \<Rightarrow> e_grade x | Some g \<Rightarrow> Some g),
       e_status := (case eu_status u of None \<Rightarrow> e_status x | Some s \<Rightarrow> s)\<rparr>"
  by (cases "eu_grade u"; cases "eu_status u")
     (simp_all add: update_fields_def update_values_def set_column_def)

lemma update_fields_empty:
  "update_fields u = [] \<longleftrightarrow> eu_grade u = None \<and> eu_status u = None"
  by (simp add: update_fields_def)

lemma update_enrollment_tx_NoFault:
  "update_enrollment_tx NoFault d enrollment_id u =
     (case find (\<lambda>e. e_enrollment_id e = enrollment_id) (enrollments d) of
        None \<Rightarrow> Inl (HTTPException 404
                  (''Enrollment with ID '' @ str_int enrollment_id @ '' not found''))
      | Some _ \<Rightarrow>
          if eu_grade u = None \<and> eu_status u = None
          then Inl (HTTPException 400 ''No fields to update'')
          else Inr (update_enrollments_set (zip (update_fields u) (update_values u))
                      enrollment_id d))"
  by (simp add: update_enrollment_tx_def get_db_connection_NoFault execute_NoFault
      then_res_Inr fetchone_filter update_fields_empty split: option.splits)

text \<open>
  C5. update_enrollment first looks the row up: on an id that no row has it raises 404
  "Enrollment with ID n not found" (also when no field is supplied). On an existing row
  with neither grade nor status supplied it raises 400 "No fields to update"; in both
  cases the state stays as it was. With at least one field supplied it writes the
  supplied fields into the rows with that id and nothing else: ids, student, course and
  date of every row are kept, the grades are kept when no grade is supplied, the statuses
  when no status is supplied, and the courses (so every current_enrollment), students and
  admins are unchanged.
\<close>

theorem update_enrollment_partial:
  fixes d :: db and enrollment_id :: int and u :: EnrollmentUpdate
  defines "row \<equiv> find (\<lambda>e. e_enrollment_id e = enrollment_id) (enrollments d)"
  defines "d' \<equiv> snd (update_enrollment NoFault d enrollment_id u)"
  shows "(row = None \<longrightarrow>
            update_enrollment NoFault d enrollment_id u =
              (Inl (HTTPException 404
                 (''Enrollment with ID '' @ str_int enrollment_id @ '' not found'')), d))
       \<and> (row \<noteq> None \<and> eu_grade u = None \<and> eu_status u = None \<longrightarrow>
            update_enrollment NoFault d enrollment_id u =
              (Inl (HTTPException 400 ''No fields to update''), d))
       \<and> (row \<noteq> None \<and> (eu_grade u \<noteq> None \<or> eu_status u \<noteq> None) \<longrightarrow>
            (\<exists>x. fst (update_enrollment NoFault d enrollment_id u) =
                   Inr (''Enrollment updated successfully'', x))
          \<and> enrollments d' =
              map (\<lambda>x. if e_enrollment_id x = enrollment_id
                        then x\<lparr>e_grade := (case eu_grade u of None \<Rightarrow> e_grade x
                                             | Some g \<Rightarrow> Some g),
                               e_status := (case eu_status u of None \<Rightarrow> e_status x
                                             | Some s \<Rightarrow> s)\<rparr>
                        else x) (enrollments d)
          \<and> map e_enrollment_id (enrollments d') = map e_enrollment_id (enrollments d)
          \<and> map e_student_id (enrollments d') = map e_student_id (enrollments d)
          \<and> map e_course_id (enrollments d') = map e_course_id (enrollments d)
          \<and> map e_enrollment_date (enrollments d') = map e_enrollment_date (enrollments d)
          \<and> (eu_grade u = None \<longrightarrow> map e_grade (enrollments d') = map e_grade (enrollments d))
          \<and> (eu_status u = None \<longrightarrow> map e_status (enrollments d') = map e_status (enrollments d))
          \<and> courses d' = courses d \<and> students d' = students d \<and> admins d' = admins d)"
proof -
  have none: "row = None \<longrightarrow>
            update_enrollment NoFault d enrollment_id u =
              (Inl (HTTPException 404
                 (''Enrollment with ID '' @ str_int enrollment_id @ '' not found'')), d)"
    by (simp add: row_def update_enrollment_def update_enrollment_tx_NoFault
        except_DatabaseError_def)
  have empty: "row \<noteq> None \<and> eu_grade u = None \<and> eu_status u = None \<longrightarrow>
            update_enrollment NoFault d enrollment_id u =
              (Inl (HTTPException 400 ''No fields to update''), d)"
    by (auto simp: row_def update_enrollment_def update_enrollment_tx_NoFault
        except_DatabaseError_def)
  let ?tx = "update_enrollments_set (zip (update_fields u) (update_values u)) enrollment_id d"
  let ?upd = "\<lambda>x. if e_enrollment_id x = enrollment_id
                        then x\<lparr>e_grade := (case eu_grade u of None \<Rightarrow> e_grade x
                                             | Some g \<Rightarrow> Some g),
                               e_status := (case eu_status u of None \<Rightarrow> e_status x
                                             | Some s \<Rightarrow> s)\<rparr>
                        else x"
  have rows: "enrollments ?tx = map ?upd (enrollments d)"
    by (simp add: update_enrollments_set_def fold_set_column)
  have frame: "courses ?tx = courses d \<and> students ?tx = students d \<and> admins ?tx = admins d"
    by (simp add: update_enrollments_set_def)
  have ids: "map e_enrollment_id (enrollments ?tx) = map e_enrollment_id (enrollments d)"
      "map e_student_id (enrollments ?tx) = map e_student_id (enrollments d)"
      "map e_course_id (enrollments ?tx) = map e_course_id (enrollments d)"
      "map e_enrollment_date (enrollments ?tx) = map e_enrollment_date (enrollments d)"
    by (simp_all add: rows)
  have grade: "eu_grade u = None \<longrightarrow>
      map e_grade (enrollments ?tx) = map e_grade (enrollments d)"
    by (simp add: rows)
  have status: "eu_status u = None \<longrightarrow>
      map e_status (enrollments ?tx) = map e_status (enrollments d)"
    by (simp add: rows)
  have some: "row \<noteq> None \<and> (eu_grade u \<noteq> None \<or> eu_status u \<noteq> None) \<longrightarrow>
            (\<exists>x. fst (update_enrollment NoFault d enrollment_id u) =
                   Inr (''Enrollment updated successfully'', x))
          \<and> d' = ?tx"
    by (auto simp: row_def d'_def update_enrollment_def update_enrollment_tx_NoFault
        execute_NoFault)
  have full: "row \<noteq> None \<and> (eu_grade u \<noteq> None \<or> eu_status u \<noteq> None) \<longrightarrow>
            (\<exists>x. fst (update_enrollment NoFault d enrollment_id u) =
                   Inr (''Enrollment updated successfully'', x))
          \<and> enrollments d' = map ?upd (enrollments d)
          \<and> map e_enrollment_id (enrollments d') = map e_enrollment_id (enrollments d)
          \<and> map e_student_id (enrollments d') = map e_student_id (enrollments d)
          \<and> map e_course_id (enrollments d') = map e_course_id (enrollments d)
          \<and> map e_enrollment_date (enrollments d') = map e_enrollment_date (enrollments d)
          \<and> (eu_grade u = None \<longrightarrow> map e_grade (enrollments d') = map e_grade (enrollments d))
          \<and> (eu_status u = None \<longrightarrow> map e_status (enrollments d') = map e_status (enrollments d))
          \<and> courses d' = courses d \<and> students d' = students d \<and> admins d' = admins d"
  proof
    assume a: "row \<noteq> None \<and> (eu_grade u \<noteq> None \<or> eu_status u \<noteq> None)"
    with some have d': "d' = ?tx" by blast
    from a some rows ids grade status frame show "(\<exists>x. fst (update_enrollment NoFault d enrollment_id u) =
                   Inr (''Enrollment updated successfully'', x))
          \<and> enrollments d' = map ?upd (enrollments d)
          \<and> map e_enrollment_id (enrollments d') = map e_enrollment_id (enrollments d)
          \<and> map e_student_id (enrollments d') = map e_student_id (enrollments d)
          \<and> map e_course_id (enrollments d') = map e_course_id (enrollments d)
          \<and> map e_enrollment_date (enrollments d') = map e_enrollment_date (enrollments d)
          \<and> (eu_grade u = None \<longrightarrow> map e_grade (enrollments d') = map e_grade (enrollments d))
          \<and> (eu_status u = None \<longrightarrow> map e_status (enrollments d') = map e_status (enrollments d))
          \<and> courses d' = courses d \<and> students d' = students d \<and> admins d' = admins d"
      unfolding d' by blast
  qed
  from none empty full show ?thesis by blast
qed

theorem update_enrollment_partial_witness:
  "update_enrollment NoFault campus 99 \<lparr>eu_grade = None, eu_status = None\<rparr> =
     (Inl (HTTPException 404 ''Enrollment with ID 99 not found''), campus)
   \<and> update_enrollment NoFault campus 2 \<lparr>eu_grade = None, eu_status = None\<rparr> =
     (Inl (HTTPException 400 ''No fields to update''), campus)
   \<and> enrollments (snd (update_enrollment NoFault campus 2
                          \<lparr>eu_grade = Some ''A'', eu_status = None\<rparr>)) =
       [bob_in_ph301, alice_in_ch401\<lparr>e_grade := Some ''A''\<rparr>]
   \<and> courses (snd (update_enrollment NoFault campus 2
                          \<lparr>eu_grade = Some ''A'', eu_status = None\<rparr>)) = courses campus"
  using update_enrollment_partial [where d = campus and enrollment_id = 99
          and u = "\<lparr>eu_grade = None, eu_status = None\<rparr>"]
    update_enrollment_partial [where d = campus and enrollment_id = 2
          and u = "\<lparr>eu_grade = None, eu_status = None\<rparr>"]
    update_enrollment_partial [where d = campus and enrollment_id = 2
          and u = "\<lparr>eu_grade = Some ''A'', eu_status = None\<rparr>"]
  by (simp add: campus_defs str_int_def str_nat.simps)

subsection \<open>The listings by student and by course\<close>

lemma get_enrollments_by_student_missing:
  assumes "\<forall>s\<in>set (students d). s_student_id s \<noteq> student_id"
    and "flt = NoFault \<or> flt = StmtFault 2 m"
  shows "get_enrollments_by_student flt d student_id =
     Inl (HTTPException 404 (''Student with ID '' @ str_int student_id @ '' not found''))"
proof -
  have "find (\<lambda>s. s_student_id s = student_id) (students d) = None"
    using assms(1) by (auto simp: find_None_iff)
  with assms(2) show ?thesis
    by (auto simp: get_enrollments_by_student_def get_db_connection_def psycopg_connect_def
        execute_def then_res_def fetchone_filter except_DatabaseError_def)
qed

lemma get_enrollments_by_student_found:
  assumes "\<exists>s\<in>set (students d). s_student_id s = student_id"
  shows "get_enrollments_by_student NoFault d student_id =
           Inr (select_enrollments_of_student d student_id)"
proof -
  obtain s where "find (\<lambda>s. s_student_id s = student_id) (students d) = Some s"
    using find_exists [OF assms] by blast
  then show ?thesis
    by (simp add: get_enrollments_by_student_def get_db_connection_NoFault execute_NoFault
        then_res_Inr fetchone_filter)
qed

lemma select_enrollments_of_student_empty:
  "\<forall>e\<in>set (enrollments d). e_student_id e \<noteq> student_id \<Longrightarrow>
     select_enrollments_of_student d student_id = []"
  by (simp add: select_enrollments_of_student_def)

lemma get_enrollments_by_course_missing:
  assumes "\<forall>c\<in>set (courses d). c_course_id c \<noteq> course_id"
    and "flt = NoFault \<or> flt = StmtFault 2 m"
  shows "get_enrollments_by_course flt d course_id =
     Inl (HTTPException 404 (''Course with ID '' @ str_int course_id @ '' not found''))"
proof -
  have "find (\<lambda>c. c_course_id c = course_id) (courses d) = None"
    using assms(1) by (auto simp: find_None_iff)
  with assms(2) show ?thesis
    by (auto simp: get_enrollments_by_course_def get_db_connection_def psycopg_connect_def
        execute_def then_res_def fetchone_filter except_DatabaseError_def)
qed

lemma get_enrollments_by_course_found:
  assumes "\<exists>c\<in>set (courses d). c_course_id c = course_id"
  shows "get_enrollments_by_course NoFault d course_id =
           Inr (select_enrollments_of_course d course_id)"
proof -
  obtain c where "find (\<lambda>c. c_course_id c = course_id) (courses d) = Some c"
    using find_exists [OF assms] by blast
  then show ?thesis
    by (simp add: get_enrollments_by_course_def get_db_connection_NoFault execute_NoFault
        then_res_Inr fetchone_filter)
qed

lemma select_enrollments_of_course_empty:
  "\<forall>e\<in>set (enrollments d). e_course_id e \<noteq> course_id \<Longrightarrow>
     select_enrollments_of_course d course_id = []"
  by (simp add: select_enrollments_of_course_def)

text \<open>
  C6. get_enrollments_by_student and get_enrollments_by_course look the student or the
  course up before they query the enrollments: when it is missing they raise 404
  "Student with ID n not found" or "Course with ID n not found", also when the
  enrollment query itself would have failed, so the lookup comes first. When it exists
  they return a list, and the list is empty when no enrollment refers to it: a result,
  not an exception.
\<close>

theorem list_enrollments_existence_check:
  "((\<forall>s\<in>set (students d). s_student_id s \<noteq> sid) \<longrightarrow>
      get_enrollments_by_student NoFault d sid =
        Inl (HTTPException 404 (''Student with ID '' @ str_int sid @ '' not found''))
    \<and> get_enrollments_by_student (StmtFault 2 m) d sid =
        Inl (HTTPException 404 (''Student with ID '' @ str_int sid @ '' not found'')))
   \<and> ((\<exists>s\<in>set (students d). s_student_id s = sid) \<longrightarrow>
      (\<exists>rows. get_enrollments_by_student NoFault d sid = Inr rows))
   \<and> ((\<exists>s\<in>set (students d). s_student_id s = sid)
        \<and> (\<forall>e\<in>set (enrollments d). e_student_id e \<noteq> sid) \<longrightarrow>
      get_enrollments_by_student NoFault d sid = Inr [])
   \<and> ((\<forall>c\<in>set (courses d). c_course_id c \<noteq> cid) \<longrightarrow>
      get_enrollments_by_course NoFault d cid =
        Inl (HTTPException 404 (''Course with ID '' @ str_int cid @ '' not found''))
    \<and> get_enrollments_by_course (StmtFault 2 m) d cid =
        Inl (HTTPException 404 (''Course with ID '' @ str_int cid @ '' not found'')))
   \<and> ((\<exists>c\<in>set (courses d). c_course_id c = cid) \<longrightarrow>
      (\<exists>rows. get_enrollments_by_course NoFault d cid = Inr rows))
   \<and> ((\<exists>c\<in>set (courses d). c_course_id c = cid)
        \<and> (\<forall>e\<in>set (enrollments d). e_course_id e \<noteq> cid) \<longrightarrow>
      get_enrollments_by_course NoFault d cid = Inr [])"
  using get_enrollments_by_student_missing [of d sid NoFault m]
    get_enrollments_by_student_missing [of d sid "StmtFault 2 m" m]
    get_enrollments_by_student_found [of d sid]
    select_enrollments_of_student_empty [of d sid]
    get_enrollments_by_course_missing [of d cid NoFault m]
    get_enrollments_by_course_missing [of d cid "StmtFault 2 m" m]
    get_enrollments_by_course_found [of d cid]
    select_enrollments_of_course_empty [of d cid]
  by simp

theorem list_enrollments_existence_check_witness:
  "get_enrollments_by_student NoFault campus 9 =
      Inl (HTTPException 404 ''Student with ID 9 not found'')
   \<and> get_enrollments_by_student NoFault (campus\<lparr>enrollments := [bob_in_ph301]\<rparr>) 1 = Inr []
   \<and> get_enrollments_by_course NoFault campus 9 =
      Inl (HTTPException 404 ''Course with ID 9 not found'')
   \<and> get_enrollments_by_course NoFault campus 1 = Inr []
   \<and> (\<exists>rows. get_enrollments_by_course NoFault campus 3 = Inr rows)"
  using list_enrollments_existence_check [where d = campus and sid = 9 and cid = 9 and m = "''x''"]
    list_enrollments_existence_check [where d = "campus\<lparr>enrollments := [bob_in_ph301]\<rparr>"
       and sid = 1 and cid = 1 and m = "''x''"]
    list_enrollments_existence_check [where d = campus and sid = 1 and cid = 1 and m = "''x''"]
    list_enrollments_existence_check [where d = campus and sid = 1 and cid = 3 and m = "''x''"]
  by (simp add: campus_defs str_int_def str_nat.simps)

text \<open>
  C7. A DatabaseError raised by the first datastore call of get_student_enrollments
  (student-service) leaves the handler as a NameError: its second except clause names
  Error, which the module never imports. The sibling get_student of the same module and
  get_enrollments_by_student of enrollment-service, with the same first statement, turn
  the same error into HTTPException 500 "Database error: ...".
\<close>

theorem get_student_enrollments_database_error:
  "get_student_enrollments (StmtFault 1 m) d student_id =
     Inl (NameError ''name 'Error' is not defined'')
   \<and> get_student (StmtFault 1 m) d student_id =
     Inl (HTTPException 500 (''Database error: '' @ m))
   \<and> get_enrollments_by_student (StmtFault 1 m) d student_id =
     Inl (HTTPException 500 (''Database error: '' @ m))"
  by (simp add: get_student_enrollments_def get_student_def get_enrollments_by_student_def
      get_db_connection_def psycopg_connect_def execute_def then_res_def
      except_Error_def except_DatabaseError_def)

subsection \<open>The admin session\<close>

lemma str_remove_absent:
  "c \<in> set old \<Longrightarrow> c \<notin> set t \<Longrightarrow> str_remove old t = t"
proof (induction t)
  case Nil
  then show ?case by simp
next
  case (Cons x xs)
  have "take (length old) (x # xs) \<noteq> old"
  proof
    assume eq: "take (length old) (x # xs) = old"
    from Cons.prems(1) have "c \<in> set (take (length old) (x # xs))"
      by (simp only: eq)
    then have "c \<in> set (x # xs)"
      by (rule in_set_takeD)
    with Cons.prems(2) show False by simp
  qed
  moreover have "str_remove old xs = xs"
    using Cons by simp
  ultimately show ?case by simp
qed

lemma str_remove_unchanged:
  "CHR '' '' \<notin> set t \<Longrightarrow> str_remove ''Bearer '' t = t"
  by (rule str_remove_absent [where c = "CHR '' ''"]) simp_all

lemma str_remove_Bearer_prefix:
  "CHR '' '' \<notin> set t \<Longrightarrow> str_remove ''Bearer '' (''Bearer '' @ t) = t"
  by (simp add: str_remove_unchanged)

lemma startswith_Bearer: "startswith (''Bearer '' @ t) ''Bearer ''"
  by (simp add: startswith_def)

lemma verify_admin_token_cases:
  "verify_admin_token now tokens None =
     (Inl (HTTPException 401 ''Authorization header missing''), tokens)"
  "verify_admin_token now tokens (Some []) =
     (Inl (HTTPException 401 ''Authorization header missing''), tokens)"
  "a \<noteq> [] \<Longrightarrow> \<not> startswith a ''Bearer '' \<Longrightarrow>
     verify_admin_token now tokens (Some a) =
       (Inl (HTTPException 401 ''Invalid authorization header format''), tokens)"
  "startswith a ''Bearer '' \<Longrightarrow> tokens (str_remove ''Bearer '' a) = None \<Longrightarrow>
     verify_admin_token now tokens (Some a) =
       (Inl (HTTPException 401 ''Invalid or expired token''), tokens)"
  "startswith a ''Bearer '' \<Longrightarrow> tokens (str_remove ''Bearer '' a) = Some entry \<Longrightarrow>
     now > te_expires_at entry \<Longrightarrow>
     verify_admin_token now tokens (Some a) =
       (Inl (HTTPException 401 ''Token expired''), tokens(str_remove ''Bearer '' a := None))"
  "startswith a ''Bearer '' \<Longrightarrow> tokens (str_remove ''Bearer '' a) = Some entry \<Longrightarrow>
     now \<le> te_expires_at entry \<Longrightarrow>
     verify_admin_token now tokens (Some a) = (Inr (te_username entry), tokens)"
  by (auto simp: verify_admin_token_def startswith_def)

lemma verify_admin_token_error:
  "fst (verify_admin_token now tokens authorization) = Inl e \<Longrightarrow>
     \<exists>detail. e = HTTPException 401 detail"
  by (auto simp: verify_admin_token_def Let_def split: option.splits if_splits)

lemma Depends_verify_admin_token_rejects:
  "fst (verify_admin_token now tokens authorization) = Inl e \<Longrightarrow>
     Depends_verify_admin_token now tokens authorization route =
       (Inl e, snd (verify_admin_token now tokens authorization))"
  by (cases "verify_admin_token now tokens authorization")
     (auto simp: Depends_verify_admin_token_def)

lemma admin_login_NoFault:
  "admin_login NoFault checkpw new_token now d tokens credentials =
     (case find (\<lambda>a. a_username a = al_username credentials) (admins d) of
        None \<Rightarrow> (Inl (HTTPException 401 ''Invalid credentials''), tokens)
      | Some admin \<Rightarrow>
          (case checkpw (al_password credentials) (a_password_hash admin) of
             Inl e \<Rightarrow> (Inl (except_DatabaseError e), tokens)
           | Inr matches \<Rightarrow>
               if \<not> matches
               then (Inl (HTTPException 401 ''Invalid credentials''), tokens)
               else (Inr \<lparr>lr_message = ''Login successful'', lr_token = new_token,
                         lr_expires_at = now + 8 * 3600 * 1000000,
                         lr_username = a_username admin\<rparr>,
                     tokens(new_token \<mapsto> \<lparr>te_username = a_username admin,
                                          te_expires_at = now + 8 * 3600 * 1000000\<rparr>))))"
  by (simp add: admin_login_def get_db_connection_NoFault execute_NoFault then_res_Inr
      fetchone_filter timedelta_hours_def Let_def split: option.splits sum.splits)

lemma admin_logout_rejected:
  "fst (verify_admin_token now tokens authorization) = Inl e \<Longrightarrow>
     admin_logout now tokens authorization =
       (Inl e, snd (verify_admin_token now tokens authorization))"
  by (simp add: admin_logout_def Depends_verify_admin_token_rejects)

text \<open>
  The extraction deletes a repeated prefix too: a header "Bearer Bearer t" is taken for
  the token t, and is accepted when t is registered and not expired.
\<close>

lemma str_remove_Bearer_again:
  "str_remove ''Bearer '' (''Bearer '' @ s) = str_remove ''Bearer '' s"
  by simp

lemma verify_admin_token_repeated_prefix:
  assumes "CHR '' '' \<notin> set t" and "tokens t = Some entry" and "now \<le> te_expires_at entry"
  shows "verify_admin_token now tokens (Some (''Bearer '' @ ''Bearer '' @ t)) =
           (Inr (te_username entry), tokens)"
proof -
  have "str_remove ''Bearer '' (''Bearer '' @ ''Bearer '' @ t) = t"
    using str_remove_unchanged [OF assms(1)] by (simp only: str_remove_Bearer_again)
  then have "tokens (str_remove ''Bearer '' (''Bearer '' @ ''Bearer '' @ t)) = Some entry"
    using assms(2) by (simp only:)
  from verify_admin_token_cases(6) [where a = "''Bearer '' @ ''Bearer '' @ t" and tokens = tokens
      and now = now and entry = entry, OF startswith_Bearer this assms(3)]
  show ?thesis .
qed

text \<open>
  What the admin session does as the claim says. admin_login, with the datastore
  answering: an unknown username and a password that bcrypt rejects both raise 401
  "Invalid credentials" and leave the token table alone; what bcrypt raises passes
  through the handler's except clauses; valid credentials return the token that
  secrets.token_urlsafe gave this call, with expiry exactly 8 hours (8 * 3600 * 1000000
  microseconds) after the time of the call, and the table maps that token to the
  username and that expiry. Such a token (it has no space in it) is accepted in
  "Bearer <token>" up to and at the expiry, and raises 401 "Token expired" after it.
  verify_admin_token raises 401 for a header that is absent or empty, that does not
  start with "Bearer ", whose extracted token is not in the table, or whose token's
  expiry is before the current time (the token is dropped then). Every exception of
  verify_admin_token is a 401, and a route that depends on it does not run then.
\<close>

lemma admin_session_holds:
  fixes d :: db and tokens :: active_tokens and credentials :: AdminLogin
    and now t :: int and new_token :: string and checkpw :: "string \<Rightarrow> string \<Rightarrow> exn + bool"
    and authorization :: "string option"
    and route :: "string \<Rightarrow> active_tokens \<Rightarrow> (exn + 'a) \<times> active_tokens"
  defines "admin_row \<equiv> find (\<lambda>a. a_username a = al_username credentials) (admins d)"
  defines "expiry \<equiv> now + 8 * 3600 * 1000000"
  defines "login \<equiv> admin_login NoFault checkpw new_token now d tokens credentials"
  defines "verify \<equiv> verify_admin_token t tokens authorization"
  shows "(admin_row = None \<longrightarrow>
            login = (Inl (HTTPException 401 ''Invalid credentials''), tokens))
       \<and> (admin_row = Some adm \<and> checkpw (al_password credentials) (a_password_hash adm) = Inr False \<longrightarrow>
            login = (Inl (HTTPException 401 ''Invalid credentials''), tokens))
       \<and> (admin_row = Some adm \<and> checkpw (al_password credentials) (a_password_hash adm) = Inl e \<longrightarrow>
            login = (Inl (except_DatabaseError e), tokens))
       \<and> (admin_row = Some adm \<and> checkpw (al_password credentials) (a_password_hash adm) = Inr True \<longrightarrow>
            login = (Inr \<lparr>lr_message = ''Login successful'', lr_token = new_token,
                          lr_expires_at = expiry, lr_username = a_username adm\<rparr>,
                     tokens(new_token \<mapsto> \<lparr>te_username = a_username adm,
                                          te_expires_at = expiry\<rparr>))
          \<and> (CHR '' '' \<notin> set new_token \<and> t \<le> expiry \<longrightarrow>
                fst (verify_admin_token t (snd login) (Some (''Bearer '' @ new_token)))
                  = Inr (a_username adm))
          \<and> (CHR '' '' \<notin> set new_token \<and> expiry < t \<longrightarrow>
                fst (verify_admin_token t (snd login) (Some (''Bearer '' @ new_token)))
                  = Inl (HTTPException 401 ''Token expired'')))
       \<and> (authorization = None \<or> authorization = Some [] \<longrightarrow>
            verify = (Inl (HTTPException 401 ''Authorization header missing''), tokens))
       \<and> (authorization = Some a \<and> a \<noteq> [] \<and> \<not> startswith a ''Bearer '' \<longrightarrow>
            verify = (Inl (HTTPException 401 ''Invalid authorization header format''), tokens))
       \<and> (authorization = Some a \<and> startswith a ''Bearer ''
            \<and> tokens (str_remove ''Bearer '' a) = None \<longrightarrow>
            verify = (Inl (HTTPException 401 ''Invalid or expired token''), tokens))
       \<and> (authorization = Some a \<and> startswith a ''Bearer ''
            \<and> tokens (str_remove ''Bearer '' a) = Some entry \<and> te_expires_at entry < t \<longrightarrow>
            verify = (Inl (HTTPException 401 ''Token expired''),
                      tokens(str_remove ''Bearer '' a := None)))
       \<and> (authorization = Some a \<and> startswith a ''Bearer ''
            \<and> tokens (str_remove ''Bearer '' a) = Some entry \<and> t \<le> te_expires_at entry \<longrightarrow>
            verify = (Inr (te_username entry), tokens))
       \<and> (CHR '' '' \<notin> set tok \<longrightarrow> str_remove ''Bearer '' (''Bearer '' @ tok) = tok)
       \<and> (\<forall>e. fst verify = Inl e \<longrightarrow>
            (\<exists>detail. e = HTTPException 401 detail)
          \<and> Depends_verify_admin_token t tokens authorization route = (Inl e, snd verify))"
proof -
  have l1: "admin_row = None \<longrightarrow>
            login = (Inl (HTTPException 401 ''Invalid credentials''), tokens)"
    by (simp add: login_def admin_row_def admin_login_NoFault)
  have l2: "admin_row = Some adm \<and> checkpw (al_password credentials) (a_password_hash adm) = Inr False \<longrightarrow>
            login = (Inl (HTTPException 401 ''Invalid credentials''), tokens)"
    by (simp add: login_def admin_row_def admin_login_NoFault)
  have l2b: "admin_row = Some adm \<and> checkpw (al_password credentials) (a_password_hash adm) = Inl e \<longrightarrow>
            login = (Inl (except_DatabaseError e), tokens)"
    by (simp add: login_def admin_row_def admin_login_NoFault)
  have l3: "admin_row = Some adm \<and> checkpw (al_password credentials) (a_password_hash adm) = Inr True \<longrightarrow>
            login = (Inr \<lparr>lr_message = ''Login successful'', lr_token = new_token,
                          lr_expires_at = expiry, lr_username = a_username adm\<rparr>,
                     tokens(new_token \<mapsto> \<lparr>te_username = a_username adm,
                                          te_expires_at = expiry\<rparr>))"
    by (simp add: login_def admin_row_def admin_login_NoFault expiry_def)
  let ?tokens' = "tokens(new_token \<mapsto> \<lparr>te_username = a_username adm, te_expires_at = expiry\<rparr>)"
  have look: "CHR '' '' \<notin> set new_token \<Longrightarrow>
      ?tokens' (str_remove ''Bearer '' (''Bearer '' @ new_token))
        = Some \<lparr>te_username = a_username adm, te_expires_at = expiry\<rparr>"
  proof -
    assume "CHR '' '' \<notin> set new_token"
    then have "str_remove ''Bearer '' (''Bearer '' @ new_token) = new_token"
      by (rule str_remove_Bearer_prefix)
    then show ?thesis by (simp only: fun_upd_same)
  qed
  have l4: "CHR '' '' \<notin> set new_token \<and> t \<le> expiry \<longrightarrow>
      fst (verify_admin_token t ?tokens' (Some (''Bearer '' @ new_token))) = Inr (a_username adm)"
  proof
    assume a: "CHR '' '' \<notin> set new_token \<and> t \<le> expiry"
    then have "t \<le> te_expires_at \<lparr>te_username = a_username adm, te_expires_at = expiry\<rparr>"
      by simp
    moreover from a have ns: "CHR '' '' \<notin> set new_token" by simp
    ultimately have "verify_admin_token t ?tokens' (Some (''Bearer '' @ new_token))
        = (Inr (te_username \<lparr>te_username = a_username adm, te_expires_at = expiry\<rparr>), ?tokens')"
      using verify_admin_token_cases(6) [where a = "''Bearer '' @ new_token" and tokens = "?tokens'"
          and now = t and entry = "\<lparr>te_username = a_username adm, te_expires_at = expiry\<rparr>",
          OF startswith_Bearer look [OF ns]] by blast
    then
    show "fst (verify_admin_token t ?tokens' (Some (''Bearer '' @ new_token)))
            = Inr (a_username adm)" by simp
  qed
  have l5: "CHR '' '' \<notin> set new_token \<and> expiry < t \<longrightarrow>
      fst (verify_admin_token t ?tokens' (Some (''Bearer '' @ new_token)))
        = Inl (HTTPException 401 ''Token expired'')"
  proof
    assume a: "CHR '' '' \<notin> set new_token \<and> expiry < t"
    then have "t > te_expires_at \<lparr>te_username = a_username adm, te_expires_at = expiry\<rparr>"
      by simp
    moreover from a have ns: "CHR '' '' \<notin> set new_token" by simp
    ultimately have "fst (verify_admin_token t ?tokens' (Some (''Bearer '' @ new_token)))
        = Inl (HTTPException 401 ''Token expired'')"
      using verify_admin_token_cases(5) [where a = "''Bearer '' @ new_token" and tokens = "?tokens'"
          and now = t and entry = "\<lparr>te_username = a_username adm, te_expires_at = expiry\<rparr>",
          OF startswith_Bearer look [OF ns]] by simp
    then
    show "fst (verify_admin_token t ?tokens' (Some (''Bearer '' @ new_token)))
            = Inl (HTTPException 401 ''Token expired'')" by simp
  qed
  have l345: "admin_row = Some adm \<and> checkpw (al_password credentials) (a_password_hash adm) = Inr True \<longrightarrow>
            login = (Inr \<lparr>lr_message = ''Login successful'', lr_token = new_token,
                          lr_expires_at = expiry, lr_username = a_username adm\<rparr>,
                     tokens(new_token \<mapsto> \<lparr>te_username = a_username adm,
                                          te_expires_at = expiry\<rparr>))
          \<and> (CHR '' '' \<notin> set new_token \<and> t \<le> expiry \<longrightarrow>
                fst (verify_admin_token t (snd login) (Some (''Bearer '' @ new_token)))
                  = Inr (a_username adm))
          \<and> (CHR '' '' \<notin> set new_token \<and> expiry < t \<longrightarrow>
                fst (verify_admin_token t (snd login) (Some (''Bearer '' @ new_token)))
                  = Inl (HTTPException 401 ''Token expired''))"
  proof
    assume a: "admin_row = Some adm \<and> checkpw (al_password credentials) (a_password_hash adm) = Inr True"
    with l3 have s: "snd login = ?tokens'" by simp
    from a l3 l4 l5 show "login = (Inr \<lparr>lr_message = ''Login successful'', lr_token = new_token,
                          lr_expires_at = expiry, lr_username = a_username adm\<rparr>,
                     tokens(new_token \<mapsto> \<lparr>te_username = a_username adm,
                                          te_expires_at = expiry\<rparr>))
          \<and> (CHR '' '' \<notin> set new_token \<and> t \<le> expiry \<longrightarrow>
                fst (verify_admin_token t (snd login) (Some (''Bearer '' @ new_token)))
                  = Inr (a_username adm))
          \<and> (CHR '' '' \<notin> set new_token \<and> expiry < t \<longrightarrow>
                fst (verify_admin_token t (snd login) (Some (''Bearer '' @ new_token)))
                  = Inl (HTTPException 401 ''Token expired''))"
      unfolding s by blast
  qed
  have v1: "authorization = None \<or> authorization = Some [] \<longrightarrow>
            verify = (Inl (HTTPException 401 ''Authorization header missing''), tokens)"
    unfolding verify_def using verify_admin_token_cases(1,2) by auto
  have v2: "authorization = Some a \<and> a \<noteq> [] \<and> \<not> startswith a ''Bearer '' \<longrightarrow>
            verify = (Inl (HTTPException 401 ''Invalid authorization header format''), tokens)"
    unfolding verify_def using verify_admin_token_cases(3) by auto
  have v3: "authorization = Some a \<and> startswith a ''Bearer ''
            \<and> tokens (str_remove ''Bearer '' a) = None \<longrightarrow>
            verify = (Inl (HTTPException 401 ''Invalid or expired token''), tokens)"
    unfolding verify_def using verify_admin_token_cases(4) by auto
  have v4: "authorization = Some a \<and> startswith a ''Bearer ''
            \<and> tokens (str_remove ''Bearer '' a) = Some entry \<and> te_expires_at entry < t \<longrightarrow>
            verify = (Inl (HTTPException 401 ''Token expired''),
                      tokens(str_remove ''Bearer '' a := None))"
    unfolding verify_def using verify_admin_token_cases(5) by auto
  have v5: "authorization = Some a \<and> startswith a ''Bearer ''
            \<and> tokens (str_remove ''Bearer '' a) = Some entry \<and> t \<le> te_expires_at entry \<longrightarrow>
            verify = (Inr (te_username entry), tokens)"
    unfolding verify_def using verify_admin_token_cases(6) by auto
  have v6: "CHR '' '' \<notin> set tok \<longrightarrow> str_remove ''Bearer '' (''Bearer '' @ tok) = tok"
    using str_remove_Bearer_prefix by blast
  have v7: "\<forall>e. fst verify = Inl e \<longrightarrow>
            (\<exists>detail. e = HTTPException 401 detail)
          \<and> Depends_verify_admin_token t tokens authorization route = (Inl e, snd verify)"
    unfolding verify_def
    using verify_admin_token_error Depends_verify_admin_token_rejects by blast
  from l1 l2 l2b l345 v1 v2 v3 v4 v5 v6 v7 show ?thesis by blast
qed

lemma admin_session_example:
  "fst (admin_login NoFault demo_checkpw ''tok'' 1000 campus Map.empty (login_as ''eve'' ''hunter2''))
     = Inl (HTTPException 401 ''Invalid credentials'')
   \<and> fst (admin_login NoFault demo_checkpw ''tok'' 1000 campus Map.empty (login_as ''root'' ''guess''))
     = Inl (HTTPException 401 ''Invalid credentials'')
   \<and> fst (admin_login NoFault demo_checkpw ''tok'' 1000 campus Map.empty (login_as ''root'' ''hunter2''))
     = Inr \<lparr>lr_message = ''Login successful'', lr_token = ''tok'',
             lr_expires_at = 28800001000, lr_username = ''root''\<rparr>
   \<and> fst (verify_admin_token 28800001000
            (snd (admin_login NoFault demo_checkpw ''tok'' 1000 campus Map.empty
                    (login_as ''root'' ''hunter2'')))
            (Some ''Bearer tok'')) = Inr ''root''
   \<and> fst (verify_admin_token 28800001001
            (snd (admin_login NoFault demo_checkpw ''tok'' 1000 campus Map.empty
                    (login_as ''root'' ''hunter2'')))
            (Some ''Bearer tok'')) = Inl (HTTPException 401 ''Token expired'')
   \<and> fst (verify_admin_token 5 Map.empty None)
     = Inl (HTTPException 401 ''Authorization header missing'')
   \<and> fst (verify_admin_token 5 Map.empty (Some ''Basic abc''))
     = Inl (HTTPException 401 ''Invalid authorization header format'')
   \<and> fst (verify_admin_token 5 Map.empty (Some ''Bearer nope''))
     = Inl (HTTPException 401 ''Invalid or expired token'')"
  using admin_session_holds [where d = campus and tokens = Map.empty and now = 1000
      and credentials = "login_as ''eve'' ''hunter2''" and checkpw = demo_checkpw
      and new_token = "''tok''" and t = 5 and authorization = None
      and route = "\<lambda>admin tk. (Inr admin, tk)"]
    admin_session_holds [where d = campus and tokens = Map.empty and now = 1000
      and credentials = "login_as ''root'' ''guess''" and checkpw = demo_checkpw
      and new_token = "''tok''" and t = 5 and authorization = "Some ''Basic abc''"
      and a = "''Basic abc''" and adm = "\<lparr>a_username = ''root'', a_password_hash = ''$2b$12$hash''\<rparr>"
      and route = "\<lambda>admin tk. (Inr admin, tk)"]
    admin_session_holds [where d = campus and tokens = Map.empty and now = 1000
      and credentials = "login_as ''root'' ''hunter2''" and checkpw = demo_checkpw
      and new_token = "''tok''" and t = 28800001000 and authorization = "Some ''Bearer nope''"
      and a = "''Bearer nope''" and adm = "\<lparr>a_username = ''root'', a_password_hash = ''$2b$12$hash''\<rparr>"
      and route = "\<lambda>admin tk. (Inr admin, tk)"]
    admin_session_holds [where d = campus and tokens = Map.empty and now = 1000
      and credentials = "login_as ''root'' ''hunter2''" and checkpw = demo_checkpw
      and new_token = "''tok''" and t = 28800001001 and authorization = "Some ''Bearer nope''"
      and a = "''Bearer nope''" and adm = "\<lparr>a_username = ''root'', a_password_hash = ''$2b$12$hash''\<rparr>"
      and route = "\<lambda>admin tk. (Inr admin, tk)"]
  by (simp add: campus_defs demo_checkpw_def login_as_def startswith_def
      verify_admin_token_def)

text \<open>
  C8. The claim says that a request carrying an unknown token is rejected with 401 and
  that a login with a wrong password fails with 401. The code misses both at these
  inputs. verify_admin_token takes the token with str.replace, which deletes every
  occurrence of "Bearer ": the header "Bearer Bearer tok" starts with "Bearer ", the
  text after that prefix is "Bearer tok", which is not in the token table, and the call
  returns the username of the registered token "tok". admin_login calls bcrypt.checkpw
  inside a try block whose except clauses name HTTPException and DatabaseError only:
  when the stored hash is no bcrypt hash, bcrypt raises ValueError for any password, and
  the login with a wrong password leaves the handler as that ValueError.
\<close>

theorem admin_session_defects:
  "startswith ''Bearer Bearer tok'' ''Bearer ''
   \<and> drop (length ''Bearer '') ''Bearer Bearer tok'' = ''Bearer tok''
   \<and> one_token ''Bearer tok'' = None
   \<and> verify_admin_token 5 one_token (Some ''Bearer Bearer tok'') = (Inr ''root'', one_token)
   \<and> fst (admin_login NoFault demo_checkpw ''tok'' 1000 campus_plain_hash Map.empty
            (login_as ''root'' ''guess'')) = Inl (ValueError ''Invalid salt'')"
  by (simp add: verify_admin_token_def startswith_def one_token_def admin_login_NoFault
      demo_checkpw_def campus_plain_hash_def login_as_def except_DatabaseError_def)

text \<open>
  C9. Whatever the datastore does, a create_enrollment call that ends in one of the five
  precondition errors (an HTTPException with status 404 or 400) leaves the committed
  state of the datastore exactly as it was: no enrollment row, no counter changed.
\<close>

theorem create_enrollment_failure_keeps_state:
  assumes "fst (create_enrollment flt dflt d enrollment) = Inl (HTTPException code detail)"
    and "code = 404 \<or> code = 400"
  shows "snd (create_enrollment flt dflt d enrollment) = d"
proof (cases "then_res (get_db_connection flt) (\<lambda>_.
             then_res (create_enrollment_checks flt d enrollment) (\<lambda>_.
               create_enrollment_writes flt dflt d enrollment))")
  case (Inl e)
  then show ?thesis by (simp add: create_enrollment_def)
next
  case (Inr p)
  obtain tx i where p: "p = (tx, i)" by (cases p)
  show ?thesis
  proof (cases "create_enrollment_response flt tx i")
    case (Inl e)
    then obtain m where "e = DatabaseError m"
      using create_enrollment_response_error by blast
    with Inl Inr p assms show ?thesis
      by (auto simp: create_enrollment_def except_DatabaseError_def)
  next
    case (Inr r)
    with \<open>_ = Inr p\<close> p assms show ?thesis
      by (simp add: create_enrollment_def)
  qed
qed

theorem create_enrollment_failure_keeps_state_witness:
  "fst (create_enrollment NoFault new_row campus (enrol 2 3))
     = Inl (HTTPException 400 ''Course is full'')
   \<and> (400 = (404::int) \<or> 400 = (400::int))
   \<and> snd (create_enrollment NoFault new_row campus (enrol 2 3)) = campus"
proof -
  have r: "fst (create_enrollment NoFault new_row campus (enrol 2 3))
     = Inl (HTTPException 400 ''Course is full'')"
    by (simp add: create_enrollment_NoFault create_enrollment_checks_NoFault campus_defs)
  show ?thesis
    using r create_enrollment_failure_keeps_state [OF r] by simp
qed

subsection \<open>get_courses\<close>

lemma get_courses_NoFault:
  "get_courses NoFault d p =
     Inr (sort_key c_course_code
            (if (case p of None \<Rightarrow> True | Some b \<Rightarrow> b)
             then filter (\<lambda>c. c_status c = ''active'') (courses d) else courses d))"
  by (simp add: get_courses_def get_db_connection_NoFault execute_NoFault then_res_Inr)

text \<open>
  C10. get_courses filters by default: a request that does not give active_only (or
  gives true) gets exactly the courses whose status is 'active', each as often as the
  table has it, ordered by course_code; no course with another status is in the result.
  Only active_only = false returns all courses.
\<close>

theorem get_courses_active_by_default:
  "(\<exists>rows. get_courses NoFault d None = Inr rows
       \<and> mset rows = filter_mset (\<lambda>c. c_status c = ''active'') (mset (courses d))
       \<and> set rows = {c \<in> set (courses d). c_status c = ''active''}
       \<and> (\<forall>c\<in>set (courses d). c_status c \<noteq> ''active'' \<longrightarrow> c \<notin> set rows)
       \<and> sorted (map c_course_code rows))
   \<and> get_courses NoFault d (Some True) = get_courses NoFault d None
   \<and> (\<exists>rows. get_courses NoFault d (Some False) = Inr rows \<and> mset rows = mset (courses d))"
  by (simp add: get_courses_NoFault)

theorem get_courses_active_by_default_witness:
  "get_courses NoFault campus None = Inr [ch401, cs101, ph301]
   \<and> ma201 \<in> set (courses campus) \<and> c_status ma201 \<noteq> ''active''
   \<and> (\<exists>rows. get_courses NoFault campus (Some False) = Inr rows \<and> ma201 \<in> set rows)"
  using get_courses_active_by_default [of campus]
  by (simp add: get_courses_NoFault campus_defs)

subsection \<open>Several create_enrollment calls on one course\<close>

lemma create_enrollment_step_success:
  assumes "\<exists>s\<in>set (students d). s_student_id s = ec_student_id req"
    and "find (\<lambda>x. c_course_id x = ec_course_id req) (courses d) = Some c"
    and "c_status c = ''active''"
    and "c_current_enrollment c < c_max_capacity c"
    and "\<forall>e\<in>set (enrollments d).
           \<not> (e_student_id e = ec_student_id req \<and> e_course_id e = ec_course_id req)"
  shows "\<exists>x d'. create_enrollment NoFault dflt d req = (Inr x, d')
           \<and> students d' = students d
           \<and> find (\<lambda>x. c_course_id x = ec_course_id req) (courses d') =
               Some (c\<lparr>c_current_enrollment := c_current_enrollment c + 1\<rparr>)
           \<and> set (enrollments d') = insert
               (dflt\<lparr>e_enrollment_id := next_enrollment_id d,
                     e_student_id := ec_student_id req,
                     e_course_id := ec_course_id req\<rparr>) (set (enrollments d))"
proof -
  obtain s where s: "find (\<lambda>s. s_student_id s = ec_student_id req) (students d) = Some s"
    using find_exists [OF assms(1)] by blast
  have dup: "find (\<lambda>e. e_student_id e = ec_student_id req \<and> e_course_id e = ec_course_id req)
               (enrollments d) = None"
    using assms(5) by (auto simp: find_None_iff)
  have checks: "create_enrollment_checks NoFault d req = Inr ()"
    using s assms(2,3,4) dup by (simp add: create_enrollment_checks_NoFault)
  have c': "find (\<lambda>x. c_course_id x = ec_course_id req)
              (courses (increment_current_enrollment (ec_course_id req)
                 (insert_enrollment dflt d req))) =
              Some (c\<lparr>c_current_enrollment := c_current_enrollment c + 1\<rparr>)"
    using assms(2) find_Some_set [OF assms(2)]
    by (simp add: find_course_increment insert_enrollment_fields)
  show ?thesis
    using c'
    by (simp add: create_enrollment_NoFault checks increment_current_enrollment_fields
        insert_enrollment_fields)
qed

lemma create_enrollment_step_full:
  assumes "\<exists>s\<in>set (students d). s_student_id s = ec_student_id req"
    and "find (\<lambda>x. c_course_id x = ec_course_id req) (courses d) = Some c"
    and "c_status c = ''active''"
    and "c_max_capacity c \<le> c_current_enrollment c"
  shows "create_enrollment NoFault dflt d req = (Inl (HTTPException 400 ''Course is full''), d)"
proof -
  obtain s where s: "find (\<lambda>s. s_student_id s = ec_student_id req) (students d) = Some s"
    using find_exists [OF assms(1)] by blast
  show ?thesis
    using s assms(2,3,4)
    by (simp add: create_enrollment_NoFault create_enrollment_checks_NoFault)
qed

lemma run_sequential_capacity:
  assumes "find (\<lambda>x. c_course_id x = cid) (courses d) = Some c"
    and "c_status c = ''active''"
    and "c_max_capacity c = c_current_enrollment c + int C"
    and "\<forall>call\<in>set calls. ec_course_id (snd call) = cid"
    and "\<forall>call\<in>set calls. \<exists>s\<in>set (students d). s_student_id s = ec_student_id (snd call)"
    and "distinct (map (\<lambda>call. ec_student_id (snd call)) calls)"
    and "\<forall>call\<in>set calls. \<forall>e\<in>set (enrollments d).
           \<not> (e_student_id e = ec_student_id (snd call) \<and> e_course_id e = cid)"
  shows "\<exists>rs d'. run_sequential d calls = (rs, d')
     \<and> map isl rs = replicate (min C (length calls)) False @ replicate (length calls - C) True
     \<and> (\<forall>r\<in>set rs. isl r \<longrightarrow> r = Inl (HTTPException 400 ''Course is full''))
     \<and> find (\<lambda>x. c_course_id x = cid) (courses d') =
         Some (c\<lparr>c_current_enrollment := c_current_enrollment c + int (min C (length calls))\<rparr>)"
  using assms
proof (induction calls arbitrary: d c C)
  case Nil
  then show ?case by simp
next
  case (Cons call calls)
  have cid: "ec_course_id (snd call) = cid"
    using Cons.prems(4) by simp
  have stud: "\<exists>s\<in>set (students d). s_student_id s = ec_student_id (snd call)"
    using Cons.prems(5) by simp
  have course: "find (\<lambda>x. c_course_id x = ec_course_id (snd call)) (courses d) = Some c"
    using Cons.prems(1) cid by simp
  show ?case
  proof (cases C)
    case 0
    then have full: "c_max_capacity c \<le> c_current_enrollment c"
      using Cons.prems(3) by simp
    have step: "create_enrollment NoFault (fst call) d (snd call) =
                  (Inl (HTTPException 400 ''Course is full''), d)"
      by (rule create_enrollment_step_full [OF stud course Cons.prems(2) full])
    have "\<exists>rs d'. run_sequential d calls = (rs, d')
       \<and> map isl rs = replicate (min C (length calls)) False @ replicate (length calls - C) True
       \<and> (\<forall>r\<in>set rs. isl r \<longrightarrow> r = Inl (HTTPException 400 ''Course is full''))
       \<and> find (\<lambda>x. c_course_id x = cid) (courses d') =
          Some (c\<lparr>c_current_enrollment := c_current_enrollment c + int (min C (length calls))\<rparr>)"
      using Cons.prems by (intro Cons.IH) simp_all
    then obtain rs d' where rest: "run_sequential d calls = (rs, d')"
      and r1: "map isl rs = replicate (min C (length calls)) False @ replicate (length calls - C) True"
      and r2: "\<forall>r\<in>set rs. isl r \<longrightarrow> r = Inl (HTTPException 400 ''Course is full'')"
      and r3: "find (\<lambda>x. c_course_id x = cid) (courses d') =
          Some (c\<lparr>c_current_enrollment := c_current_enrollment c + int (min C (length calls))\<rparr>)"
      by blast
    have run: "run_sequential d (call # calls) =
                 (Inl (HTTPException 400 ''Course is full'') # rs, d')"
      by (simp add: step rest)
    show ?thesis
      unfolding run using r1 r2 r3 0 by simp
  next
    case (Suc C')
    then have room: "c_current_enrollment c < c_max_capacity c"
      using Cons.prems(3) by simp
    have fresh: "\<forall>e\<in>set (enrollments d).
           \<not> (e_student_id e = ec_student_id (snd call) \<and> e_course_id e = ec_course_id (snd call))"
      using Cons.prems(7) cid by simp
    let ?c1 = "c\<lparr>c_current_enrollment := c_current_enrollment c + 1\<rparr>"
    let ?row = "(fst call)\<lparr>e_enrollment_id := next_enrollment_id d,
                     e_student_id := ec_student_id (snd call),
                     e_course_id := ec_course_id (snd call)\<rparr>"
    from create_enrollment_step_success [OF stud course Cons.prems(2) room fresh, of "fst call"]
    obtain x d1 where step: "create_enrollment NoFault (fst call) d (snd call) = (Inr x, d1)"
      and st1: "students d1 = students d"
      and c1: "find (\<lambda>x. c_course_id x = cid) (courses d1) = Some ?c1"
      and e1: "set (enrollments d1) = insert ?row (set (enrollments d))"
      unfolding cid by blast
    have p2: "c_status ?c1 = ''active''" using Cons.prems(2) by simp
    have p3: "c_max_capacity ?c1 = c_current_enrollment ?c1 + int C'"
      using Cons.prems(3) Suc by simp
    have p4: "\<forall>call\<in>set calls. ec_course_id (snd call) = cid"
      using Cons.prems(4) by simp
    have p5: "\<forall>call\<in>set calls. \<exists>s\<in>set (students d1). s_student_id s = ec_student_id (snd call)"
      using Cons.prems(5) st1 by simp
    have p6: "distinct (map (\<lambda>call. ec_student_id (snd call)) calls)"
      using Cons.prems(6) by simp
    have other: "\<forall>k\<in>set calls. ec_student_id (snd k) \<noteq> ec_student_id (snd call)"
    proof
      fix k assume k: "k \<in> set calls"
      have "ec_student_id (snd call) \<notin> (\<lambda>call. ec_student_id (snd call)) ` set calls"
        using Cons.prems(6) by simp
      with k show "ec_student_id (snd k) \<noteq> ec_student_id (snd call)"
        by (metis imageI)
    qed
    have p7: "\<forall>call\<in>set calls. \<forall>e\<in>set (enrollments d1).
           \<not> (e_student_id e = ec_student_id (snd call) \<and> e_course_id e = cid)"
      using Cons.prems(7) other unfolding e1 by auto
    from Cons.IH [OF c1 p2 p3 p4 p5 p6 p7]
    obtain rs d' where rest: "run_sequential d1 calls = (rs, d')"
      and r1: "map isl rs = replicate (min C' (length calls)) False @ replicate (length calls - C') True"
      and r2: "\<forall>r\<in>set rs. isl r \<longrightarrow> r = Inl (HTTPException 400 ''Course is full'')"
      and r3: "find (\<lambda>x. c_course_id x = cid) (courses d') =
          Some (?c1\<lparr>c_current_enrollment := c_current_enrollment ?c1 + int (min C' (length calls))\<rparr>)"
      by blast
    have run: "run_sequential d (call # calls) = (Inr x # rs, d')"
      by (simp add: step rest)
    show ?thesis
      unfolding run using r1 r2 r3 Suc by simp
  qed
qed

lemma create_enrollment_checks_Inr:
  assumes "create_enrollment_checks flt d req = Inr u"
  shows "\<exists>c. find (\<lambda>x. c_course_id x = ec_course_id req) (courses d) = Some c
           \<and> c_status c = ''active'' \<and> c_current_enrollment c < c_max_capacity c"
  using assms
  by (auto simp: create_enrollment_checks_def then_res_def fetchone_filter
      split: sum.splits option.splits if_splits)

lemma create_enrollment_keeps_capacity:
  assumes "find (\<lambda>x. c_course_id x = ec_course_id req) (courses d) = Some c"
    and "c_current_enrollment c \<le> c_max_capacity c"
  shows "\<exists>c'. find (\<lambda>x. c_course_id x = ec_course_id req)
                 (courses (snd (create_enrollment flt dflt d req))) = Some c'
            \<and> c_current_enrollment c' \<le> c_max_capacity c'
            \<and> c_max_capacity c' = c_max_capacity c"
proof (cases "then_res (get_db_connection flt) (\<lambda>_.
             then_res (create_enrollment_checks flt d req) (\<lambda>_.
               create_enrollment_writes flt dflt d req))")
  case (Inl e)
  then have "snd (create_enrollment flt dflt d req) = d"
    by (simp add: create_enrollment_def)
  with assms show ?thesis by simp
next
  case (Inr p)
  obtain tx i where p: "p = (tx, i)" by (cases p)
  have tx: "tx = increment_current_enrollment (ec_course_id req) (insert_enrollment dflt d req)"
    using create_enrollment_pre_commit_state [where flt = flt and d = d and enrollment = req
        and dflt = dflt] Inr p by simp
  have "\<exists>u. create_enrollment_checks flt d req = Inr u"
    using Inr by (auto simp: then_res_def split: sum.splits)
  then obtain c0 where c0: "find (\<lambda>x. c_course_id x = ec_course_id req) (courses d) = Some c0"
    and room: "c_current_enrollment c0 < c_max_capacity c0"
    using create_enrollment_checks_Inr by blast
  from c0 assms(1) have same: "c0 = c" by simp
  have st: "snd (create_enrollment flt dflt d req) = tx"
    using Inr p by (simp add: create_enrollment_def split: sum.splits)
  have "find (\<lambda>x. c_course_id x = ec_course_id req) (courses tx) =
          Some (c\<lparr>c_current_enrollment := c_current_enrollment c + 1\<rparr>)"
    unfolding tx using assms(1) find_Some_set [OF assms(1)]
    by (simp add: find_course_increment insert_enrollment_fields)
  with room same st show ?thesis by simp
qed

text \<open>
  A schedule that moves one call twice, with no other call between, is the handler run
  on its own: same committed state, same exception, same new id.
\<close>

lemma run_schedule_alone:
  "run_schedule [call] [0, 0] ([Started], d) =
     ([Finished (map_sum id (\<lambda>_. next_enrollment_id d)
                   (fst (create_enrollment NoFault (fst call) d (snd call))))],
      snd (create_enrollment NoFault (fst call) d (snd call)))"
proof (cases "create_enrollment_checks NoFault d (snd call)")
  case (Inl e)
  then have "\<exists>code detail. e = HTTPException code detail"
    by (auto simp: create_enrollment_checks_NoFault split: option.splits if_splits)
  then have "except_DatabaseError e = e"
    by (auto simp: except_DatabaseError_def)
  with Inl show ?thesis
    by (simp add: advance_def create_enrollment_NoFault)
next
  case (Inr u)
  then show ?thesis
    by (simp add: advance_def create_enrollment_NoFault create_enrollment_writes_NoFault)
qed

text \<open>
  Calls that repeat a student take one seat only: five calls of Bob for course 4, which
  has four seats left, give one success and then "Student is already enrolled in this
  course". So the count of successes equals the seats left only for distinct students.
\<close>

lemma repeated_student_takes_one_seat:
  "map c_max_capacity (filter (\<lambda>c. c_course_id c = 4) (courses campus)) = [5]
   \<and> map c_current_enrollment (filter (\<lambda>c. c_course_id c = 4) (courses campus)) = [1]
   \<and> map isl (fst (run_sequential campus (replicate 5 (new_row, enrol 2 4))))
       = [False, True, True, True, True]
   \<and> fst (run_sequential campus (replicate 5 (new_row, enrol 2 4))) ! 1
       = Inl (HTTPException 400 ''Student is already enrolled in this course'')"
  by (simp add: numeral_eq_Suc create_enrollment_NoFault create_enrollment_checks_NoFault
      insert_enrollment_def increment_current_enrollment_def campus_defs)

text \<open>
  C1, as the code has it. When N create_enrollment calls for one active course run one
  after another, for distinct students who exist and are not enrolled in it, and the
  course has C < N seats left (max_capacity = current_enrollment + C), then the first C
  calls succeed, the other N - C raise 400 "Course is full", and the course ends with
  current_enrollment = max_capacity. And a single call, whatever the datastore does,
  commits no state in which the course it looked up has current_enrollment above
  max_capacity, when the counter was within capacity before.
\<close>

theorem sequential_calls_respect_capacity:
  assumes course: "find (\<lambda>x. c_course_id x = cid) (courses d) = Some c"
    and active: "c_status c = ''active''"
    and remaining: "c_max_capacity c = c_current_enrollment c + int C"
    and more: "C < length calls"
    and same_course: "\<forall>call\<in>set calls. ec_course_id (snd call) = cid"
    and students_exist:
      "\<forall>call\<in>set calls. \<exists>s\<in>set (students d). s_student_id s = ec_student_id (snd call)"
    and distinct_students: "distinct (map (\<lambda>call. ec_student_id (snd call)) calls)"
    and not_enrolled:
      "\<forall>call\<in>set calls. \<forall>e\<in>set (enrollments d).
           \<not> (e_student_id e = ec_student_id (snd call) \<and> e_course_id e = cid)"
  shows "(\<exists>rs d'. run_sequential d calls = (rs, d')
           \<and> map isl rs = replicate C False @ replicate (length calls - C) True
           \<and> length (filter (\<lambda>r. \<not> isl r) rs) = C
           \<and> length (filter isl rs) = length calls - C
           \<and> (\<forall>r\<in>set rs. isl r \<longrightarrow> r = Inl (HTTPException 400 ''Course is full''))
           \<and> find (\<lambda>x. c_course_id x = cid) (courses d') =
               Some (c\<lparr>c_current_enrollment := c_max_capacity c\<rparr>))
       \<and> (\<forall>flt dflt sid. \<exists>c'.
             find (\<lambda>x. c_course_id x = cid)
               (courses (snd (create_enrollment flt dflt d
                                \<lparr>ec_student_id = sid, ec_course_id = cid\<rparr>))) = Some c'
             \<and> c_current_enrollment c' \<le> c_max_capacity c')"
proof -
  from run_sequential_capacity [OF course active remaining same_course students_exist
      distinct_students not_enrolled]
  obtain rs d' where run: "run_sequential d calls = (rs, d')"
    and r1: "map isl rs = replicate (min C (length calls)) False @ replicate (length calls - C) True"
    and r2: "\<forall>r\<in>set rs. isl r \<longrightarrow> r = Inl (HTTPException 400 ''Course is full'')"
    and r3: "find (\<lambda>x. c_course_id x = cid) (courses d') =
         Some (c\<lparr>c_current_enrollment := c_current_enrollment c + int (min C (length calls))\<rparr>)"
    by blast
  have m: "min C (length calls) = C" using more by simp
  have shape: "map isl rs = replicate C False @ replicate (length calls - C) True"
    using r1 m by simp
  have "length (filter (\<lambda>b. \<not> b) (map isl rs)) = C"
    unfolding shape by simp
  then have succ: "length (filter (\<lambda>r. \<not> isl r) rs) = C"
    by (simp add: filter_map comp_def)
  have "length (filter (\<lambda>b. b) (map isl rs)) = length calls - C"
    unfolding shape by simp
  then have fail: "length (filter isl rs) = length calls - C"
    by (simp add: filter_map comp_def)
  have final: "find (\<lambda>x. c_course_id x = cid) (courses d') =
               Some (c\<lparr>c_current_enrollment := c_max_capacity c\<rparr>)"
    using r3 m remaining by simp
  have single: "\<forall>flt dflt sid. \<exists>c'.
             find (\<lambda>x. c_course_id x = cid)
               (courses (snd (create_enrollment flt dflt d
                                \<lparr>ec_student_id = sid, ec_course_id = cid\<rparr>))) = Some c'
             \<and> c_current_enrollment c' \<le> c_max_capacity c'"
  proof (intro allI)
    fix flt dflt sid
    have le: "c_current_enrollment c \<le> c_max_capacity c" using remaining by simp
    from create_enrollment_keeps_capacity
      [where req = "\<lparr>ec_student_id = sid, ec_course_id = cid\<rparr>" and d = d and c = c
         and flt = flt and dflt = dflt] course le
    show "\<exists>c'. find (\<lambda>x. c_course_id x = cid)
               (courses (snd (create_enrollment flt dflt d
                                \<lparr>ec_student_id = sid, ec_course_id = cid\<rparr>))) = Some c'
             \<and> c_current_enrollment c' \<le> c_max_capacity c'"
      by auto
  qed
  from run shape succ fail r2 final single show ?thesis by blast
qed

theorem sequential_calls_respect_capacity_witness:
  "map isl (fst (run_sequential campus two_calls)) = [False, True]
   \<and> fst (run_sequential campus two_calls) ! 1 = Inl (HTTPException 400 ''Course is full'')
   \<and> find (\<lambda>x. c_course_id x = 1) (courses (snd (run_sequential campus two_calls)))
       = Some (cs101\<lparr>c_current_enrollment := 1\<rparr>)
   \<and> c_max_capacity cs101 = 1"
proof -
  have h1: "find (\<lambda>x. c_course_id x = 1) (courses campus) = Some cs101"
    by (simp add: campus_defs)
  have h2: "c_status cs101 = ''active''" by (simp add: cs101_def)
  have h3: "c_max_capacity cs101 = c_current_enrollment cs101 + int 1" by (simp add: cs101_def)
  have h4: "1 < length two_calls" by (simp add: two_calls_def)
  have h5: "\<forall>call\<in>set two_calls. ec_course_id (snd call) = 1"
    by (simp add: two_calls_def enrol_def)
  have h6: "\<forall>call\<in>set two_calls.
      \<exists>s\<in>set (students campus). s_student_id s = ec_student_id (snd call)"
    by (simp add: two_calls_def campus_defs)
  have h7: "distinct (map (\<lambda>call. ec_student_id (snd call)) two_calls)"
    by (simp add: two_calls_def enrol_def)
  have h8: "\<forall>call\<in>set two_calls. \<forall>e\<in>set (enrollments campus).
           \<not> (e_student_id e = ec_student_id (snd call) \<and> e_course_id e = 1)"
    by (simp add: two_calls_def campus_defs)
  from sequential_calls_respect_capacity [OF h1 h2 h3 h4 h5 h6 h7 h8]
  obtain rs d' where run: "run_sequential campus two_calls = (rs, d')"
    and shape: "map isl rs = replicate 1 False @ replicate (length two_calls - 1) True"
    and full: "\<forall>r\<in>set rs. isl r \<longrightarrow> r = Inl (HTTPException 400 ''Course is full'')"
    and final: "find (\<lambda>x. c_course_id x = 1) (courses d') =
               Some (cs101\<lparr>c_current_enrollment := c_max_capacity cs101\<rparr>)"
    by blast
  have s2: "map isl rs = [False, True]"
    using shape by (simp add: two_calls_def)
  then have "length rs = 2" by (metis length_map length_Cons list.size(3) numeral_2_eq_2)
  with s2 have "isl (rs ! 1)" by (metis nth_map one_less_numeral_iff semiring_norm(76) nth_Cons_0 nth_Cons_Suc One_nat_def)
  moreover have "rs ! 1 \<in> set rs" using \<open>length rs = 2\<close> by simp
  ultimately have "rs ! 1 = Inl (HTTPException 400 ''Course is full'')"
    using full by blast
  with s2 final run show ?thesis by (simp add: cs101_def)
qed

text \<open>
  C1, as stated, fails: the five checks and the two writes of create_enrollment are not
  serialised per course. The handler reads, decides, and then writes, with no lock on
  the course row and no conditional update. Course 1 has one seat (max_capacity 1,
  current_enrollment 0) and two calls ask for it, so C = 1 < N = 2. In the schedule
  where both calls run their checks before either writes, both succeed and the course
  ends with current_enrollment 2. The same two calls one after the other give one success
  and one "Course is full".
\<close>

theorem interleaved_calls_overbook:
  "map c_max_capacity (filter (\<lambda>c. c_course_id c = 1) (courses campus)) = [1]
   \<and> map c_current_enrollment (filter (\<lambda>c. c_course_id c = 1) (courses campus)) = [0]
   \<and> length two_calls = 2
   \<and> fst (run_schedule two_calls [0, 1, 0, 1] ([Started, Started], campus))
       = [Finished (Inr 3), Finished (Inr 4)]
   \<and> map c_current_enrollment (filter (\<lambda>c. c_course_id c = 1)
         (courses (snd (run_schedule two_calls [0, 1, 0, 1] ([Started, Started], campus))))) = [2]
   \<and> fst (run_schedule two_calls [0, 0, 1, 1] ([Started, Started], campus))
       = [Finished (Inr 3), Finished (Inl (HTTPException 400 ''Course is full''))]"
  by (simp add: advance_def create_enrollment_checks_NoFault create_enrollment_writes_NoFault
      insert_enrollment_def increment_current_enrollment_def except_DatabaseError_def
      two_calls_def campus_defs)

end
